theory Spec2Isabelle
  imports Complex_Main "HOL-Library.Multiset"
begin

section \<open>SCCmecFinder: the classification and report engine\<close>

text \<open>
  A shallow embedding of \<^verbatim>\<open>SCCmecFinder_v4.py\<close>. Python strings are \<open>string\<close>s whose
  characters stand for code points below 256, Python sets of strings are \<open>string set\<close>s
  (finite in every run of the program), a \<^verbatim>\<open>dict\<close> is an association list in insertion
  order, and an exception is a value of \<open>py_error\<close> on the left of a sum.
\<close>

subsection \<open>Reference tables\<close>

text \<open>\<^verbatim>\<open>SCCMEC_DEFINITIONS\<close>, lines 20 to 36.\<close>

definition SCCMEC_DEFINITIONS :: "(string \<times> string set) list" where
  "SCCMEC_DEFINITIONS =
    [(''SCCmec_type_I(1B)'', {''ccrA1'', ''ccrB1'', ''mecA'', ''dmecR1'', ''IS1272''}),
     (''SCCmec_type_II(2A)'', {''ccrA2'', ''ccrB2'', ''mecA'', ''mecR1'', ''mecI''}),
     (''SCCmec_type_III(3A)'', {''ccrA3'', ''ccrB3'', ''mecA'', ''mecR1'', ''mecI''}),
     (''SCCmec_type_IV(2B)'', {''ccrA2'', ''ccrB2'', ''mecA'', ''dmecR1'', ''IS1272''}),
     (''SCCmec_type_IV(2B&5)'', {''ccrA2'', ''ccrB2'', ''ccrC11'', ''mecA'', ''dmecR1'', ''IS1272''}),
     (''SCCmec_type_V(5C2)'', {''ccrC11'', ''mec-class-C2'', ''mecA''}),
     (''SCCmec_type_V(5C2&5)'', {''ccrC11'', ''ccrC12'', ''mec-class-C2'', ''mecA''}),
     (''SCCmec_type_VI(4B)'', {''ccrA4'', ''ccrB4'', ''mecA'', ''dmecR1'', ''IS1272''}),
     (''SCCmec_type_VII(5C1)'', {''ccrC11'', ''mec-class-C1'', ''mecA''}),
     (''SCCmec_type_VIII(4A)'', {''ccrA4'', ''ccrB4'', ''mecA'', ''mecR1'', ''mecI''}),
     (''SCCmec_type_IX(1C2)'', {''ccrA1'', ''ccrB1'', ''mec-class-C2'', ''mecA''}),
     (''SCCmec_type_X(7C1)'', {''ccrA1'', ''ccrB6'', ''mec-class-C1'', ''mecA''}),
     (''SCCmec_type_XI(8E)'', {''ccrA1'', ''ccrB3'', ''mecC'', ''mecR1'', ''mecI''}),
     (''SCCmec_type_XII(9C2)'', {''ccrC21'', ''mec-class-C2'', ''mecA''}),
     (''SCCmec_type_XIII(9A)'', {''ccrC21'', ''mecA'', ''dmecR1'', ''IS1272''})]"

text \<open>\<^verbatim>\<open>SCCMEC_CLASSES\<close>, lines 38 to 54.\<close>

definition SCCMEC_CLASSES :: "(string \<times> string set) list" where
  "SCCMEC_CLASSES =
    [(''SCCmec_type_I(1B)'', {''ccr class 1'', ''mec class B''}),
     (''SCCmec_type_II(2A)'', {''ccr class 2'', ''mec class A''}),
     (''SCCmec_type_III(3A)'', {''ccr class 3'', ''mec class A''}),
     (''SCCmec_type_IV(2B)'', {''ccr class 2'', ''mec class B''}),
     (''SCCmec_type_IV(2B&5)'', {''ccr class 5'', ''ccr class 2'', ''mec class B''}),
     (''SCCmec_type_V(5C2)'', {''ccr class 5'', ''mec class C2''}),
     (''SCCmec_type_V(5C2&5)'', {''ccr class 5&5'', ''mec class C2''}),
     (''SCCmec_type_VI(4B)'', {''ccr class 4'', ''mec class B''}),
     (''SCCmec_type_VII(5C1)'', {''ccr class 5'', ''mec class C1''}),
     (''SCCmec_type_VIII(4A)'', {''ccr class 4'', ''mec class A''}),
     (''SCCmec_type_IX(1C2)'', {''ccr class 1'', ''mec class C2''}),
     (''SCCmec_type_X(7C1)'', {''ccr class 7'', ''mec class C1''}),
     (''SCCmec_type_XI(8E)'', {''ccr class 8'', ''mec class E''}),
     (''SCCmec_type_XII(9C2)'', {''ccr class 9'', ''mec class C2''}),
     (''SCCmec_type_XIII(9A)'', {''ccr class 9'', ''mec class A''})]"

text \<open>\<^verbatim>\<open>d.get(k, set())\<close>: the value stored under \<open>k\<close>, the empty set when there is none.\<close>

definition dict_get :: "(string \<times> string set) list \<Rightarrow> string \<Rightarrow> string set" where
  "dict_get d k = (case map_of d k of None \<Rightarrow> {} | Some v \<Rightarrow> v)"

subsection \<open>The three classifiers\<close>

text \<open>
  Each \<^verbatim>\<open>if\<close> of the source appends at most one label; the list returned is the
  concatenation of these contributions in the order of the statements.
\<close>

definition perform_ccr_gene_complex_typing :: "string set \<Rightarrow> string set \<Rightarrow> string list" where
  "perform_ccr_gene_complex_typing ccrAB_genes ccrC_genes =
    (if {''ccrA1'', ''ccrB1''} \<subseteq> ccrAB_genes then [''ccr class 1''] else []) @
    (if {''ccrA2'', ''ccrB2''} \<subseteq> ccrAB_genes then [''ccr class 2''] else []) @
    (if {''ccrC11'', ''ccrC12''} \<subseteq> ccrC_genes then [''ccr class 5&5'']
     else if ''ccrC11'' \<in> ccrC_genes then [''ccr class 5''] else []) @
    (if {''ccrA3'', ''ccrB3''} \<subseteq> ccrAB_genes then [''ccr class 3''] else []) @
    (if {''ccrA4'', ''ccrB4''} \<subseteq> ccrAB_genes then [''ccr class 4''] else []) @
    (if {''ccrA5'', ''ccrB3''} \<subseteq> ccrAB_genes then [''ccr class 6''] else []) @
    (if {''ccrA1'', ''ccrB6''} \<subseteq> ccrAB_genes then [''ccr class 7''] else []) @
    (if {''ccrA1'', ''ccrB3''} \<subseteq> ccrAB_genes then [''ccr class 8''] else []) @
    (if ''ccrC21'' \<in> ccrC_genes then [''ccr class 9''] else [])"

definition perform_mec_gene_complex_typing :: "string set \<Rightarrow> string list" where
  "perform_mec_gene_complex_typing mec_genes =
    (if {''mecA'', ''mecR1'', ''mecI''} \<subseteq> mec_genes then [''mec class A''] else []) @
    (if {''mecA'', ''dmecR1'', ''IS1272''} \<subseteq> mec_genes then [''mec class B''] else []) @
    (if {''mecA'', ''mec-class-C1''} \<subseteq> mec_genes then [''mec class C1''] else []) @
    (if {''mecA'', ''mec-class-C2''} \<subseteq> mec_genes then [''mec class C2''] else []) @
    (if {''mecC'', ''mecR1'', ''mecI''} \<subseteq> mec_genes then [''mec class E''] else [])"

definition perform_sccmec_typing :: "string set \<Rightarrow> string list" where
  "perform_sccmec_typing classes =
    (if {''ccr class 1'', ''mec class B''} \<subseteq> classes then [''SCCmec_type_I(1B)''] else []) @
    (if {''ccr class 2'', ''mec class A''} \<subseteq> classes then [''SCCmec_type_II(2A)''] else []) @
    (if {''ccr class 3'', ''mec class A''} \<subseteq> classes then [''SCCmec_type_III(3A)''] else []) @
    (if {''ccr class 2'', ''ccr class 5'', ''mec class B''} \<subseteq> classes
       then [''SCCmec_type_IV(2B&5)'']
     else if {''ccr class 2'', ''mec class B''} \<subseteq> classes then [''SCCmec_type_IV(2B)'']
     else []) @
    (if {''ccr class 5'', ''mec class C2''} \<subseteq> classes then [''SCCmec_type_V(5C2)''] else []) @
    (if {''ccr class 5&5'', ''mec class C2''} \<subseteq> classes then [''SCCmec_type_V(5C2&5)''] else []) @
    (if {''ccr class 4'', ''mec class B''} \<subseteq> classes then [''SCCmec_type_VI(4B)''] else []) @
    (if {''ccr class 5'', ''mec class C1''} \<subseteq> classes then [''SCCmec_type_VII(5C1)''] else []) @
    (if {''ccr class 4'', ''mec class A''} \<subseteq> classes then [''SCCmec_type_VIII(4A)''] else []) @
    (if {''ccr class 1'', ''mec class C2''} \<subseteq> classes then [''SCCmec_type_IX(1C2)''] else []) @
    (if {''ccr class 7'', ''mec class C1''} \<subseteq> classes then [''SCCmec_type_X(7C1)''] else []) @
    (if {''ccr class 8'', ''mec class E''} \<subseteq> classes then [''SCCmec_type_XI(8E)''] else []) @
    (if {''ccr class 9'', ''mec class C2''} \<subseteq> classes then [''SCCmec_type_XII(9C2)''] else []) @
    (if {''ccr class 9'', ''mec class A''} \<subseteq> classes then [''SCCmec_type_XIII(9A)''] else [])"

subsection \<open>Strings, lists and exceptions of the Python runtime\<close>

datatype py_error = IndexError | ValueError

abbreviation nl :: char where
  "nl \<equiv> CHR 0x0A"

abbreviation tab :: char where
  "tab \<equiv> CHR 0x09"

text \<open>\<^verbatim>\<open>s.startswith(p)\<close>.\<close>

fun startswith :: "string \<Rightarrow> string \<Rightarrow> bool" where
  "startswith s [] = True"
| "startswith [] (p # ps) = False"
| "startswith (c # cs) (p # ps) = (c = p \<and> startswith cs ps)"

text \<open>
  \<^verbatim>\<open>s.split(sep)\<close> for a separator of one character: the segments between the
  occurrences of \<open>sep\<close>, always at least one segment.
\<close>

fun py_split :: "char \<Rightarrow> string \<Rightarrow> string list" where
  "py_split sep [] = [[]]"
| "py_split sep (c # cs) =
    (if c = sep then [] # py_split sep cs
     else (case py_split sep cs of
             [] \<Rightarrow> [[c]]
           | w # ws \<Rightarrow> (c # w) # ws))"

text \<open>
  \<^verbatim>\<open>s.strip()\<close> removes leading and trailing white space. Among the code points
  below 256 \<^verbatim>\<open>str.isspace\<close> holds of 9 to 13, 28 to 32, 133 and 160.
\<close>

definition py_isspace :: "char \<Rightarrow> bool" where
  "py_isspace c \<longleftrightarrow>
     c \<in> {CHR 0x09, CHR 0x0A, CHR 0x0B, CHR 0x0C, CHR 0x0D, CHR 0x1C, CHR 0x1D,
          CHR 0x1E, CHR 0x1F, CHR 0x20, CHR 0x85, CHR 0xA0}"

definition py_strip :: "string \<Rightarrow> string" where
  "py_strip s = rev (dropWhile py_isspace (rev (dropWhile py_isspace s)))"

text \<open>\<^verbatim>\<open>xs[i]\<close> for a non-negative index: \<^verbatim>\<open>IndexError\<close> out of range.\<close>

definition py_index :: "'a list \<Rightarrow> nat \<Rightarrow> py_error + 'a" where
  "py_index xs i = (if i < length xs then Inr (xs ! i) else Inl IndexError)"

text \<open>\<^verbatim>\<open>sep.join(xs)\<close> for a list \<open>xs\<close>.\<close>

fun py_join :: "string \<Rightarrow> string list \<Rightarrow> string" where
  "py_join sep [] = []"
| "py_join sep [x] = x"
| "py_join sep (x # y # ys) = x @ sep @ py_join sep (y # ys)"

text \<open>The decimal numeral an f-string prints for a length.\<close>

fun py_str_nat :: "nat \<Rightarrow> string" where
  "py_str_nat n =
    (if n < 10 then [''0123456789'' ! n]
     else py_str_nat (n div 10) @ [''0123456789'' ! (n mod 10)])"

declare py_str_nat.simps [simp del]

subsection \<open>Gene evidence and the identity-matcher table\<close>

text \<open>The variables initialised at lines 183 to 187.\<close>

record gene_evidence =
  ccrAB_genes :: "string set"
  ccrC_genes :: "string set"
  mec_genes :: "string set"
  subtyping_genes :: "string set"
  mrsa_gene :: string

definition initial_evidence :: gene_evidence where
  "initial_evidence =
    \<lparr>ccrAB_genes = {}, ccrC_genes = {}, mec_genes = {}, subtyping_genes = {}, mrsa_gene = []\<rparr>"

text \<open>Lines 217 and 221: the columns of a line and the gene token of its first column.\<close>

definition parts_of :: "string \<Rightarrow> string list" where
  "parts_of line = py_split tab (py_strip line)"

definition gene_of :: "string \<Rightarrow> string" where
  "gene_of line = py_split CHR '':'' (parts_of line ! 0) ! 0"

text \<open>
  The body of the loop at lines 216 to 236, for one line of the table: a line with fewer
  than four columns is skipped, any other line adds its gene token to the set of its
  family and may overwrite \<^verbatim>\<open>mrsa_gene\<close>.
\<close>

definition process_line :: "gene_evidence \<Rightarrow> string \<Rightarrow> gene_evidence" where
  "process_line ev line =
    (if length (parts_of line) < 4 then ev
     else
       let gene = gene_of line in
       if startswith gene ''ccr'' then
         (if startswith gene ''ccrA'' \<or> startswith gene ''ccrB''
            then ev\<lparr>ccrAB_genes := insert gene (ccrAB_genes ev)\<rparr>
          else if startswith gene ''ccrC''
            then ev\<lparr>ccrC_genes := insert gene (ccrC_genes ev)\<rparr>
          else ev)
       else if startswith gene ''mec'' \<or> startswith gene ''IS'' \<or> startswith gene ''dme'' then
         (let ev' = ev\<lparr>mec_genes := insert gene (mec_genes ev)\<rparr> in
          if startswith gene ''mecALGA251'' then ev'\<lparr>mrsa_gene := ''mecALGA251''\<rparr>
          else if startswith gene ''mecA'' then ev'\<lparr>mrsa_gene := ''mecA''\<rparr>
          else if startswith gene ''mec-class'' then ev'\<lparr>mrsa_gene := ''mecA''\<rparr>
          else ev')
       else if startswith gene ''sub''
         then ev\<lparr>subtyping_genes := insert (py_split CHR ''|'' gene ! 0) (subtyping_genes ev)\<rparr>
       else ev)"

text \<open>The loop over the lines that follow the header, from the variables as initialised.\<close>

definition parse_db_lines :: "string list \<Rightarrow> gene_evidence" where
  "parse_db_lines lines = foldl process_line initial_evidence lines"

subsection \<open>Homology hits and their ranking\<close>

text \<open>The dictionary stored for one template at lines 263 to 273: every field is text.\<close>

record kmer_record =
  Score :: string
  Expected :: string
  z :: string
  p_value :: string
  query_coverage :: string
  template_coverage :: string
  depth :: string
  Kmers_in_Template :: string
  Description :: string

text \<open>
  \<^verbatim>\<open>kmer_results\<close> is a dictionary from template names to such records; its
  \<^verbatim>\<open>items()\<close> are the list of its entries in insertion order.

  Lines 294 to 298. \<^verbatim>\<open>float\<close> is a parameter \<open>pyfloat\<close>: \<open>None\<close> where it raises
  \<^verbatim>\<open>ValueError\<close>, otherwise the number read, in a linear order (a not-a-number has no
  place in one and is left out). \<open>score_key\<close> is the key function of line 296, read
  only where \<open>pyfloat\<close> succeeds. \<^verbatim>\<open>sorted\<close> computes the key of every entry, then sorts;
  with \<^verbatim>\<open>reverse=True\<close> it reverses the list, sorts it stably in ascending order and
  reverses the result. An empty dictionary is not sorted at all.
\<close>

definition score_key :: "(string \<Rightarrow> 'k::linorder option) \<Rightarrow> string \<times> kmer_record \<Rightarrow> 'k" where
  "score_key pyfloat x = the (pyfloat (Score (snd x)))"

definition kmer_sorted ::
  "(string \<Rightarrow> 'k::linorder option) \<Rightarrow> (string \<times> kmer_record) list
     \<Rightarrow> py_error + (string \<times> kmer_record) list" where
  "kmer_sorted pyfloat kmer_results =
    (if kmer_results = [] then Inr []
     else if list_ex (\<lambda>x. pyfloat (Score (snd x)) = None) kmer_results then Inl ValueError
     else Inr (rev (sort_key (score_key pyfloat) (rev kmer_results))))"

text \<open>Lines 299 and 300.\<close>

definition best_kmer_hit :: "(string \<times> kmer_record) list \<Rightarrow> string" where
  "best_kmer_hit kmer_hits =
    (case kmer_hits of [] \<Rightarrow> [] | hit # _ \<Rightarrow> py_split CHR ''|'' (fst hit) ! 0)"

definition kmer_subtype :: "(string \<times> kmer_record) list \<Rightarrow> string" where
  "kmer_subtype kmer_hits =
    (case kmer_hits of
       [] \<Rightarrow> []
     | hit # _ \<Rightarrow> if CHR ''|'' \<in> set (fst hit) then py_split CHR ''|'' (fst hit) ! 1 else [])"

subsection \<open>Typing of an isolate\<close>

text \<open>Lines 276 to 282.\<close>

definition total_genes :: "gene_evidence \<Rightarrow> string set" where
  "total_genes ev = ccrAB_genes ev \<union> ccrC_genes ev \<union> mec_genes ev"

definition all_classes :: "gene_evidence \<Rightarrow> string set" where
  "all_classes ev =
    set (perform_ccr_gene_complex_typing (ccrAB_genes ev) (ccrC_genes ev) @
         perform_mec_gene_complex_typing (mec_genes ev))"

definition sccmec_types :: "gene_evidence \<Rightarrow> string list" where
  "sccmec_types ev = perform_sccmec_typing (all_classes ev)"

text \<open>Lines 285 to 291: \<open>True\<close> stands for \<^verbatim>\<open>'Yes'\<close>.\<close>

definition perform_subtyping :: "string list \<Rightarrow> bool" where
  "perform_subtyping types \<longleftrightarrow>
     length types = 1 \<and>
     types ! 0 \<in> {''SCCmec_type_IV(2B)'', ''SCCmec_type_V(5C2&5)'', ''SCCmec_type_V(5C2)''}"

subsection \<open>The report\<close>

text \<open>
  Python fixes no order in which a set of strings is iterated: \<open>iter\<close> is the order the
  run uses, the list \<open>iter S\<close> for the set \<open>S\<close>. It is in use wherever the source joins a
  set or turns one into a list.
\<close>

type_synonym set_order = "string set \<Rightarrow> string list"

definition order_ok :: "set_order \<Rightarrow> string set \<Rightarrow> bool" where
  "order_ok iter S \<longleftrightarrow> set (iter S) = S \<and> distinct (iter S)"

text \<open>
  Lines 320 to 329, the text written by the subtype reconciliation for the single type
  \<open>db_hit\<close>; \<^verbatim>\<open>subtype_gene.split('-')[1]\<close> raises when the gene holds no hyphen.
\<close>

definition subtype_lines ::
  "set_order \<Rightarrow> bool \<Rightarrow> string \<Rightarrow> string set \<Rightarrow> string \<Rightarrow> py_error + string" where
  "subtype_lines iter subtyping ksubtype sub_genes db_hit =
    (if subtyping \<and> ksubtype \<noteq> [] then
       if card sub_genes > 1
         then Inr (''Alert! Multiple subtype target genes detected.'' @ [nl])
       else if card sub_genes = 1 then
         (case py_index (iter sub_genes) 0 of
            Inl e \<Rightarrow> Inl e
          | Inr subtype_gene \<Rightarrow>
              (case py_index (py_split CHR ''-'' subtype_gene) 1 of
                 Inl e \<Rightarrow> Inl e
               | Inr suffix \<Rightarrow>
                   let db_subtype = (py_split CHR ''('' db_hit ! 0) @ ''_'' @ suffix in
                   Inr ((if db_subtype \<noteq> ksubtype
                           then ''Alert! Contradicting subtype predictions.'' @ [nl] else []) @
                        ''Prediction based on genes: '' @ db_subtype @ [nl])))
       else Inr []
     else Inr [])"

text \<open>Lines 306 to 309.\<close>

definition resistance_lines :: "string \<Rightarrow> string" where
  "resistance_lines marker =
    (if marker \<noteq> []
       then ''The input organism was predicted as a MRSA isolate'' @ [nl] @
            ''The '' @ marker @ '' gene was detected'' @ [nl, nl]
     else ''The input organism was predicted as a MSSA isolate'' @ [nl] @
          ''The mecA/mecC gene was not detected'' @ [nl, nl])"

text \<open>Lines 333 to 335, for the single type.\<close>

definition homology_line :: "(string \<times> kmer_record) list \<Rightarrow> string" where
  "homology_line kmer_hits =
    (if best_kmer_hit kmer_hits \<noteq> [] then
       ''Prediction based on homology: '' @ best_kmer_hit kmer_hits @ '' ('' @
       template_coverage (snd (kmer_hits ! 0)) @ ''% coverage)'' @ [nl]
     else [])"

text \<open>Lines 337 to 347, for the single type \<open>db_hit\<close>.\<close>

definition additional_sections :: "set_order \<Rightarrow> gene_evidence \<Rightarrow> string \<Rightarrow> string" where
  "additional_sections iter ev db_hit =
    (let additional_complexes = all_classes ev - dict_get SCCMEC_CLASSES db_hit;
         additional_genes = total_genes ev - dict_get SCCMEC_DEFINITIONS db_hit
     in (if additional_complexes \<noteq> {} then
           [nl] @ ''Additional complexes found:'' @ [nl] @
           py_join [nl] (iter additional_complexes) @ [nl]
         else []) @
        (if additional_genes \<noteq> {} then
           [nl] @ ''Additional genes found:'' @ [nl] @
           py_join [nl] (iter additional_genes) @ [nl]
         else []))"

text \<open>Lines 354 to 363, when no type was found.\<close>

definition best_match_section ::
  "set_order \<Rightarrow> gene_evidence \<Rightarrow> (string \<times> kmer_record) list \<Rightarrow> string" where
  "best_match_section iter ev kmer_hits =
    (case kmer_hits of
       [] \<Rightarrow> []
     | hit # _ \<Rightarrow>
         let best_hit = fst hit;
             coverage = template_coverage (snd hit);
             missing_genes =
               dict_get SCCMEC_DEFINITIONS (py_split CHR ''|'' best_hit ! 0) - total_genes ev
         in [nl] @ ''Best homology match: '' @ best_hit @ '' ('' @ coverage @
              ''% coverage)'' @ [nl] @
            (if missing_genes \<noteq> {} then
               [nl] @ ''Missing genes for this cassette:'' @ [nl] @
               py_join [nl] (iter missing_genes) @ [nl]
             else []))"

text \<open>Lines 304 to 363, the text of the result file.\<close>

definition result_text ::
  "set_order \<Rightarrow> gene_evidence \<Rightarrow> (string \<times> kmer_record) list \<Rightarrow> py_error + string" where
  "result_text iter ev kmer_hits =
    (let types = sccmec_types ev in
     if types \<noteq> [] then
       if length types > 1 then
         Inr (resistance_lines (mrsa_gene ev) @
              ''Alert! Possible '' @ py_str_nat (length types) @
                '' SCCmec cassettes were predicted:'' @ [nl] @
              py_join [nl] types @ [nl, nl])
       else
         let db_hit = types ! 0 in
         (case subtype_lines iter (perform_subtyping types) (kmer_subtype kmer_hits)
                 (subtyping_genes ev) db_hit of
            Inl e \<Rightarrow> Inl e
          | Inr subtype_text \<Rightarrow>
              Inr (resistance_lines (mrsa_gene ev) @
                   subtype_text @
                   ''Prediction based on genes: '' @ db_hit @ [nl] @
                   homology_line kmer_hits @
                   additional_sections iter ev db_hit))
     else
       Inr (resistance_lines (mrsa_gene ev) @
            ''No SCCmec element was detected'' @ [nl] @
            (if all_classes ev \<noteq> {} then
               [nl] @ ''Detected gene complexes:'' @ [nl] @
               py_join [nl] (iter (all_classes ev)) @ [nl]
             else []) @
            best_match_section iter ev kmer_hits))"

text \<open>Lines 367 to 376, the text of the homology table.\<close>

definition html_row :: "string \<times> kmer_record \<Rightarrow> string" where
  "html_row hit =
    fst hit @ [tab] @ Score (snd hit) @ [tab] @ Expected (snd hit) @ [tab] @ z (snd hit) @ [tab] @
    p_value (snd hit) @ [tab] @ query_coverage (snd hit) @ [tab] @
    template_coverage (snd hit) @ [tab] @ depth (snd hit) @ [tab] @
    Kmers_in_Template (snd hit) @ [tab] @ Description (snd hit) @ [nl]"

definition html_text :: "(string \<times> kmer_record) list \<Rightarrow> string" where
  "html_text kmer_hits =
    ''SCCmec elements'' @ [nl] @
    (if kmer_hits \<noteq> [] then
       ''Template'' @ [tab] @ ''Score'' @ [tab] @ ''Expected'' @ [tab] @ ''z'' @ [tab] @
       ''p_value'' @ [tab] @ ''Query Coverage'' @ [tab] @ ''Template Coverage'' @ [tab] @
       ''Depth'' @ [tab] @ ''Kmers'' @ [tab] @ ''Description'' @ [nl] @
       concat (map html_row (take 5 kmer_hits))
     else ''no whole SCCmec cassette was found'' @ [nl])"

text \<open>
  The engine from the parsed evidence and the retained homology hits to the two texts
  written: the ranking, then the result file, then the homology table. An exception
  leaves the function before the table is written.
\<close>

definition main_core ::
  "set_order \<Rightarrow> (string \<Rightarrow> 'k::linorder option) \<Rightarrow> gene_evidence
     \<Rightarrow> (string \<times> kmer_record) list \<Rightarrow> py_error + string \<times> string" where
  "main_core iter pyfloat ev kmer_results =
    (case kmer_sorted pyfloat kmer_results of
       Inl e \<Rightarrow> Inl e
     | Inr kmer_hits \<Rightarrow>
         (case result_text iter ev kmer_hits of
            Inl e \<Rightarrow> Inl e
          | Inr text \<Rightarrow> Inr (text, html_text kmer_hits)))"

subsection \<open>Notions used to state the properties\<close>

text \<open>
  The resistance marker that one line of the identity-matcher table gives, if any: a
  line of at least four columns whose gene token begins with \<^verbatim>\<open>mecALGA251\<close>, or else
  with \<^verbatim>\<open>mecA\<close> or \<^verbatim>\<open>mec-class\<close>.
\<close>

definition marker_of_line :: "string \<Rightarrow> string option" where
  "marker_of_line line =
    (if length (parts_of line) < 4 then None
     else if startswith (gene_of line) ''mecALGA251'' then Some ''mecALGA251''
     else if startswith (gene_of line) ''mecA'' \<or> startswith (gene_of line) ''mec-class''
       then Some ''mecA''
     else None)"

definition sets_marker :: "string \<Rightarrow> bool" where
  "sets_marker line \<longleftrightarrow> marker_of_line line \<noteq> None"

text \<open>Last write wins: the marker of the last line that gives one, else the empty string.\<close>

definition last_marker :: "string list \<Rightarrow> string" where
  "last_marker lines =
    (let ms = filter sets_marker lines
     in if ms = [] then [] else the (marker_of_line (last ms)))"

text \<open>The sets whose iteration order the result file can depend on, by branch.\<close>

definition iterated_sets :: "gene_evidence \<Rightarrow> (string \<times> kmer_record) list \<Rightarrow> string set list" where
  "iterated_sets ev kmer_hits =
    (case sccmec_types ev of
       [] \<Rightarrow>
         all_classes ev #
         (case kmer_hits of
            [] \<Rightarrow> []
          | hit # _ \<Rightarrow>
              [dict_get SCCMEC_DEFINITIONS (py_split CHR ''|'' (fst hit) ! 0) - total_genes ev])
     | [db_hit] \<Rightarrow>
         [subtyping_genes ev,
          all_classes ev - dict_get SCCMEC_CLASSES db_hit,
          total_genes ev - dict_get SCCMEC_DEFINITIONS db_hit]
     | _ \<Rightarrow> [])"

subsection \<open>Sample inputs\<close>

text \<open>A line of the identity-matcher table for a hit name, with three further columns.\<close>

definition sample_row :: "string \<Rightarrow> string" where
  "sample_row name =
    name @ [tab] @ ''99.5'' @ [tab] @ ''1200/1200'' @ [tab] @ ''contig_1'' @ [nl]"

text \<open>A homology record with a given score and template coverage.\<close>

definition sample_record :: "string \<Rightarrow> string \<Rightarrow> kmer_record" where
  "sample_record score coverage =
    \<lparr>Score = score, Expected = ''2'', z = ''30.1'', p_value = ''1.0e-20'',
     query_coverage = ''90.0'', template_coverage = coverage, depth = ''1.0'',
     Kmers_in_Template = ''2100'', Description = ''cassette''\<rparr>"

text \<open>What \<^verbatim>\<open>float\<close> reads from the score texts of the samples; it rejects \<^verbatim>\<open>n/a\<close>.\<close>

definition sample_float :: "string \<Rightarrow> real option" where
  "sample_float = map_of [(''10.2'', 10.2), (''7'', 7), (''30'', 30), (''8.5'', 8.5)]"

text \<open>An iteration order for sets of known labels: the order of a given list.\<close>

definition listed_order :: "string list \<Rightarrow> set_order" where
  "listed_order labels S = filter (\<lambda>x. x \<in> S) labels"

text \<open>
  An isolate of type IV(2B) with two subtyping genes, and one homology hit whose template
  name carries a subtype after the bar.
\<close>

definition ev_two_subtypes :: gene_evidence where
  "ev_two_subtypes =
    \<lparr>ccrAB_genes = {''ccrA2'', ''ccrB2''}, ccrC_genes = {},
     mec_genes = {''mecA'', ''dmecR1'', ''IS1272''},
     subtyping_genes = {''subtype-IVa'', ''subtype-IVc''}, mrsa_gene = ''mecA''\<rparr>"

definition hits_IVa :: "(string \<times> kmer_record) list" where
  "hits_IVa = [(''SCCmec_type_IV(2B)|SCCmec_type_IVa'', sample_record ''10.2'' ''80.0'')]"


text \<open>An isolate with the ccr genes of two classes and no mec gene.\<close>

definition ev_two_ccr :: gene_evidence where
  "ev_two_ccr =
    \<lparr>ccrAB_genes = {''ccrA1'', ''ccrB1'', ''ccrA2'', ''ccrB2''}, ccrC_genes = {},
     mec_genes = {}, subtyping_genes = {}, mrsa_gene = []\<rparr>"

text \<open>
  An isolate of type II(2A) with a further ccr complex and further genes, an isolate
  without any gene evidence, and one homology hit for the type II(2A) template.
\<close>

definition ev_extra :: gene_evidence where
  "ev_extra =
    \<lparr>ccrAB_genes = {''ccrA2'', ''ccrB2'', ''ccrA5'', ''ccrB3''}, ccrC_genes = {},
     mec_genes = {''mecA'', ''mecR1'', ''mecI'', ''IS1272''},
     subtyping_genes = {}, mrsa_gene = ''mecA''\<rparr>"

definition hits_IIvar :: "(string \<times> kmer_record) list" where
  "hits_IIvar = [(''SCCmec_type_II(2A)|var1'', sample_record ''8.5'' ''75.5'')]"

definition gene_order :: set_order where
  "gene_order =
    listed_order [''ccr class 6'', ''ccrA2'', ''ccrA5'', ''ccrB2'', ''ccrB3'', ''IS1272'',
                  ''mecA'', ''mecI'', ''mecR1'']"

text \<open>
  The table of an isolate whose only mec token is \<^verbatim>\<open>mec-class-C2\<close>, and the table of
  an isolate of type IV(2B) whose one subtyping gene has no hyphen in its name; the
  order \<open>label_order\<close> covers the labels these isolates give.
\<close>

definition rows_mec_class :: "string list" where
  "rows_mec_class = [sample_row ''ccrC11:1:AB'', sample_row ''mec-class-C2:3:CD'']"

definition rows_no_hyphen :: "string list" where
  "rows_no_hyphen =
    [sample_row ''ccrA2:7:AB'', sample_row ''ccrB2:9:AB'', sample_row ''mecA:12:CD'',
     sample_row ''dmecR1:1:EF'', sample_row ''IS1272:3:GH'', sample_row ''subtypeIVa|x'']"

definition label_order :: set_order where
  "label_order = listed_order [''ccr class 5'', ''subtypeIVa'', ''subtype-IVa'']"

section \<open>Properties\<close>

subsection \<open>Auxiliary facts\<close>

lemmas typing_defs =
  sccmec_types_def all_classes_def total_genes_def perform_sccmec_typing_def
  perform_ccr_gene_complex_typing_def perform_mec_gene_complex_typing_def

lemmas table_defs = dict_get_def SCCMEC_CLASSES_def SCCMEC_DEFINITIONS_def

lemmas report_defs =
  result_text_def subtype_lines_def perform_subtyping_def kmer_subtype_def best_kmer_hit_def
  homology_line_def additional_sections_def best_match_section_def resistance_lines_def
  py_index_def

lemmas ranking_defs = kmer_sorted_def score_key_def sample_record_def sample_float_def

lemmas line_defs =
  process_line_def parts_of_def gene_of_def py_strip_def py_isspace_def sample_row_def

lemma ball_set_if:
  "(\<forall>t \<in> set (if c then [x] else ys). P t) \<longleftrightarrow>
     (if c then P x else (\<forall>t \<in> set ys. P t))"
  by simp

lemma startswith_iff: "startswith s p \<longleftrightarrow> (\<exists>r. s = p @ r)"
  by (induction s p rule: startswith.induct) auto

lemma py_split_not_Nil: "py_split c s \<noteq> []"
  by (induction s) (auto split: list.splits)

lemma py_split_append: "py_split c (a @ c # b) = py_split c a @ py_split c b"
  by (induction a) (auto split: list.splits simp: py_split_not_Nil)

lemma py_split_none: "c \<notin> set l \<Longrightarrow> py_split c l = [l]"
  by (induction l) auto

lemma line_in_text: "c \<notin> set l \<Longrightarrow> l \<in> set (py_split c (a @ c # l @ c # b))"
  by (simp add: py_split_append py_split_none)

lemma resistance_lines_end: "\<exists>r. resistance_lines m = r @ [nl]"
  by (simp add: resistance_lines_def)

lemma perform_subtyping_iff:
  "perform_subtyping ts \<longleftrightarrow>
     (\<exists>t. ts = [t] \<and>
          t \<in> {''SCCmec_type_IV(2B)'', ''SCCmec_type_V(5C2&5)'', ''SCCmec_type_V(5C2)''})"
  by (cases ts) (auto simp: perform_subtyping_def)

lemma sccmec_types_subtyping_update [simp]:
  "sccmec_types (ev\<lparr>subtyping_genes := sg\<rparr>) = sccmec_types ev"
  by (simp add: sccmec_types_def all_classes_def)

lemma additional_sections_subtyping_update [simp]:
  "additional_sections iter (ev\<lparr>subtyping_genes := sg\<rparr>) t = additional_sections iter ev t"
  by (simp add: additional_sections_def all_classes_def total_genes_def)

lemma best_match_section_subtyping_update [simp]:
  "best_match_section iter (ev\<lparr>subtyping_genes := sg\<rparr>) hits = best_match_section iter ev hits"
  by (simp add: best_match_section_def total_genes_def split: list.splits)

lemma all_classes_subtyping_update [simp]:
  "all_classes (ev\<lparr>subtyping_genes := sg\<rparr>) = all_classes ev"
  by (simp add: all_classes_def)

lemma subtype_lines_closed:
  "\<not> (p \<and> k \<noteq> []) \<Longrightarrow> subtype_lines iter p k sg t = Inr []"
  by (auto simp: subtype_lines_def)

lemma result_text_guard_closed:
  assumes "\<not> (perform_subtyping (sccmec_types ev) \<and> kmer_subtype hits \<noteq> [])"
  shows "result_text iter (ev\<lparr>subtyping_genes := sg\<rparr>) hits = result_text iter ev hits"
  using assms by (simp add: result_text_def Let_def subtype_lines_closed)

lemma result_text_alert:
  assumes "perform_subtyping (sccmec_types ev)" and "kmer_subtype hits \<noteq> []"
    and "1 < card (subtyping_genes ev)"
  shows "result_text iter ev hits =
     Inr (resistance_lines (mrsa_gene ev) @
          ''Alert! Multiple subtype target genes detected.'' @ [nl] @
          ''Prediction based on genes: '' @ sccmec_types ev ! 0 @ [nl] @
          homology_line hits @ additional_sections iter ev (sccmec_types ev ! 0))"
proof -
  from assms(1) obtain t where t: "sccmec_types ev = [t]"
    by (auto simp: perform_subtyping_iff)
  show ?thesis using assms
    by (simp add: result_text_def t subtype_lines_def)
qed

lemma alert_line_present:
  "''Alert! Multiple subtype target genes detected.'' \<in>
     set (py_split nl (resistance_lines m @
            ''Alert! Multiple subtype target genes detected.'' @ [nl] @ rest))"
proof -
  obtain r where r: "resistance_lines m = r @ [nl]"
    using resistance_lines_end by blast
  have "nl \<notin> set ''Alert! Multiple subtype target genes detected.''" by simp
  from line_in_text [OF this, of r rest] show ?thesis
    by (simp add: r)
qed

lemma main_core_sorted:
  "kmer_sorted pyfloat kmer_results = Inr kmer_hits \<Longrightarrow>
   main_core iter pyfloat ev kmer_results =
     (case result_text iter ev kmer_hits of
        Inl e \<Rightarrow> Inl e
      | Inr text \<Rightarrow> Inr (text, html_text kmer_hits))"
  by (simp add: main_core_def)

lemma kmer_sorted_empty: "kmer_sorted pyfloat [] = Inr []"
  by (simp add: kmer_sorted_def)

lemma kmer_sorted_hits_IVa: "kmer_sorted sample_float hits_IVa = Inr hits_IVa"
  by (simp add: ranking_defs hits_IVa_def)

lemma types_two_subtypes: "sccmec_types ev_two_subtypes = [''SCCmec_type_IV(2B)'']"
  by (simp add: typing_defs ev_two_subtypes_def)

lemma card_two_subtypes: "card (subtyping_genes ev_two_subtypes) = 2"
  by (simp add: ev_two_subtypes_def)

lemma marker_token_is_mec:
  assumes "startswith g ''mecA'' \<or> startswith g ''mec-class''"
  shows "startswith g ''mec''" and "\<not> startswith g ''ccr''"
  using assms by (auto simp: startswith_iff)

lemma mecALGA251_is_mecA: "startswith g ''mecALGA251'' \<Longrightarrow> startswith g ''mecA''"
  by (auto simp: startswith_iff)

lemma mrsa_process_line:
  "mrsa_gene (process_line ev line) =
     (case marker_of_line line of None \<Rightarrow> mrsa_gene ev | Some m \<Rightarrow> m)"
proof (cases "length (parts_of line) < 4")
  case True
  then show ?thesis by (simp add: process_line_def marker_of_line_def)
next
  case long: False
  show ?thesis
  proof (cases "startswith (gene_of line) ''mecA'' \<or> startswith (gene_of line) ''mec-class''")
    case True
    note marker_token_is_mec [OF True]
    with long True show ?thesis
      by (auto simp add: process_line_def marker_of_line_def Let_def)
  next
    case False
    with mecALGA251_is_mecA have "\<not> startswith (gene_of line) ''mecALGA251''"
      by blast
    with long False show ?thesis
      by (simp add: process_line_def marker_of_line_def Let_def)
  qed
qed

lemma mrsa_foldl:
  "mrsa_gene (foldl process_line ev lines) =
     (let ms = filter sets_marker lines
      in if ms = [] then mrsa_gene ev else the (marker_of_line (last ms)))"
proof (induction lines rule: rev_induct)
  case Nil
  then show ?case by simp
next
  case (snoc l ls)
  show ?case
  proof (cases "marker_of_line l")
    case None
    then show ?thesis using snoc by (simp add: mrsa_process_line sets_marker_def)
  next
    case (Some m)
    then show ?thesis by (simp add: mrsa_process_line sets_marker_def)
  qed
qed

lemma mrsa_gene_parse: "mrsa_gene (parse_db_lines lines) = last_marker lines"
  by (simp add: parse_db_lines_def mrsa_foldl initial_evidence_def last_marker_def Let_def)

subsection \<open>The classifiers\<close>

text \<open>
  Claim C3. Whenever the class set holds \<^verbatim>\<open>ccr class 2\<close>, \<^verbatim>\<open>ccr class 5\<close> and
  \<^verbatim>\<open>mec class B\<close>, the typer lists \<^verbatim>\<open>SCCmec_type_IV(2B&5)\<close> and not
  \<^verbatim>\<open>SCCmec_type_IV(2B)\<close>; whenever it holds \<^verbatim>\<open>ccr class 2\<close> and \<^verbatim>\<open>mec class B\<close>
  but not \<^verbatim>\<open>ccr class 5\<close>, the typer lists \<^verbatim>\<open>SCCmec_type_IV(2B)\<close>.
\<close>

theorem typer_rule_precedence:
  "({''ccr class 2'', ''ccr class 5'', ''mec class B''} \<subseteq> C \<longrightarrow>
      ''SCCmec_type_IV(2B&5)'' \<in> set (perform_sccmec_typing C) \<and>
      ''SCCmec_type_IV(2B)'' \<notin> set (perform_sccmec_typing C)) \<and>
   (''ccr class 2'' \<in> C \<and> ''mec class B'' \<in> C \<and> ''ccr class 5'' \<notin> C \<longrightarrow>
      ''SCCmec_type_IV(2B)'' \<in> set (perform_sccmec_typing C))"
  by (simp add: perform_sccmec_typing_def)

theorem typer_rule_precedence_witness:
  "{''ccr class 2'', ''ccr class 5'', ''mec class B''} \<subseteq>
     {''ccr class 2'', ''ccr class 5'', ''mec class B'', ''mec class A''} \<and>
   ''SCCmec_type_IV(2B&5)'' \<in>
     set (perform_sccmec_typing {''ccr class 2'', ''ccr class 5'', ''mec class B'', ''mec class A''}) \<and>
   ''SCCmec_type_IV(2B)'' \<notin>
     set (perform_sccmec_typing {''ccr class 2'', ''ccr class 5'', ''mec class B'', ''mec class A''}) \<and>
   ''ccr class 5'' \<notin> {''ccr class 2'', ''mec class B''} \<and>
   ''SCCmec_type_IV(2B)'' \<in> set (perform_sccmec_typing {''ccr class 2'', ''mec class B''})"
proof -
  have a: "{''ccr class 2'', ''ccr class 5'', ''mec class B''} \<subseteq>
             {''ccr class 2'', ''ccr class 5'', ''mec class B'', ''mec class A''}"
    by simp
  have b: "''ccr class 2'' \<in> {''ccr class 2'', ''mec class B''} \<and>
           ''mec class B'' \<in> {''ccr class 2'', ''mec class B''} \<and>
           ''ccr class 5'' \<notin> {''ccr class 2'', ''mec class B''}"
    by simp
  note c = typer_rule_precedence
    [of "{''ccr class 2'', ''ccr class 5'', ''mec class B'', ''mec class A''}",
      THEN conjunct1, THEN mp, OF a]
  note d = typer_rule_precedence
    [of "{''ccr class 2'', ''mec class B''}", THEN conjunct2, THEN mp, OF b]
  from a b c d show ?thesis by simp
qed

text \<open>
  Claim C4. For all gene sets: when \<^verbatim>\<open>ccrC11\<close> and \<^verbatim>\<open>ccrC12\<close> are both among the ccrC
  genes, the CCR classifier emits \<^verbatim>\<open>ccr class 5&5\<close> and not \<^verbatim>\<open>ccr class 5\<close>; when
  \<^verbatim>\<open>ccrC11\<close> is there and \<^verbatim>\<open>ccrC12\<close> is not, it emits \<^verbatim>\<open>ccr class 5\<close> and not
  \<^verbatim>\<open>ccr class 5&5\<close>.
\<close>

theorem ccr_class_5_precedence:
  "(''ccrC11'' \<in> ccrC \<and> ''ccrC12'' \<in> ccrC \<longrightarrow>
      ''ccr class 5&5'' \<in> set (perform_ccr_gene_complex_typing ccrAB ccrC) \<and>
      ''ccr class 5'' \<notin> set (perform_ccr_gene_complex_typing ccrAB ccrC)) \<and>
   (''ccrC11'' \<in> ccrC \<and> ''ccrC12'' \<notin> ccrC \<longrightarrow>
      ''ccr class 5'' \<in> set (perform_ccr_gene_complex_typing ccrAB ccrC) \<and>
      ''ccr class 5&5'' \<notin> set (perform_ccr_gene_complex_typing ccrAB ccrC))"
  by (simp add: perform_ccr_gene_complex_typing_def)

theorem ccr_class_5_precedence_witness:
  "''ccrC11'' \<in> {''ccrC11'', ''ccrC12''} \<and> ''ccrC12'' \<in> {''ccrC11'', ''ccrC12''} \<and>
   ''ccr class 5&5'' \<in>
     set (perform_ccr_gene_complex_typing {''ccrA2'', ''ccrB2''} {''ccrC11'', ''ccrC12''}) \<and>
   ''ccr class 5'' \<notin>
     set (perform_ccr_gene_complex_typing {''ccrA2'', ''ccrB2''} {''ccrC11'', ''ccrC12''}) \<and>
   ''ccrC11'' \<in> {''ccrC11'', ''ccrC21''} \<and> ''ccrC12'' \<notin> {''ccrC11'', ''ccrC21''} \<and>
   ''ccr class 5'' \<in> set (perform_ccr_gene_complex_typing {} {''ccrC11'', ''ccrC21''}) \<and>
   ''ccr class 5&5'' \<notin> set (perform_ccr_gene_complex_typing {} {''ccrC11'', ''ccrC21''})"
proof -
  have a: "''ccrC11'' \<in> {''ccrC11'', ''ccrC12''} \<and> ''ccrC12'' \<in> {''ccrC11'', ''ccrC12''}"
    by simp
  have b: "''ccrC11'' \<in> {''ccrC11'', ''ccrC21''} \<and> ''ccrC12'' \<notin> {''ccrC11'', ''ccrC21''}"
    by simp
  note c = ccr_class_5_precedence
    [of "{''ccrC11'', ''ccrC12''}" "{''ccrA2'', ''ccrB2''}", THEN conjunct1, THEN mp, OF a]
  note d = ccr_class_5_precedence
    [of "{''ccrC11'', ''ccrC21''}" "{}", THEN conjunct2, THEN mp, OF b]
  from a b c d show ?thesis by simp
qed

text \<open>
  Claim C5. For every class set, the typer returns the empty list exactly when no entry
  of the table of required class sets (\<^verbatim>\<open>SCCMEC_CLASSES\<close>, one entry for each of the 15
  type labels) has its required set included in the class set; and a type is only ever
  returned when its whole required set is included, so a partial overlap never yields it.
\<close>

theorem typer_empty_iff:
  "(perform_sccmec_typing C = [] \<longleftrightarrow> (\<forall>(t, req) \<in> set SCCMEC_CLASSES. \<not> req \<subseteq> C)) \<and>
   (\<forall>t \<in> set (perform_sccmec_typing C).
      \<exists>req. map_of SCCMEC_CLASSES t = Some req \<and> req \<subseteq> C)"
proof
  show "perform_sccmec_typing C = [] \<longleftrightarrow> (\<forall>(t, req) \<in> set SCCMEC_CLASSES. \<not> req \<subseteq> C)"
    by (simp add: perform_sccmec_typing_def SCCMEC_CLASSES_def)
  show "\<forall>t \<in> set (perform_sccmec_typing C).
          \<exists>req. map_of SCCMEC_CLASSES t = Some req \<and> req \<subseteq> C"
    by (simp add: perform_sccmec_typing_def ball_Un ball_set_if SCCMEC_CLASSES_def)
qed

theorem typer_empty_iff_witness:
  "perform_sccmec_typing {''ccr class 2'', ''mec class C1''} = [] \<and>
   \<not> (\<exists>(t, req) \<in> set SCCMEC_CLASSES. req \<subseteq> {''ccr class 2'', ''mec class C1''}) \<and>
   perform_sccmec_typing {''ccr class 1'', ''ccr class 2'', ''mec class A''} =
     [''SCCmec_type_II(2A)''] \<and>
   (\<exists>req. map_of SCCMEC_CLASSES ''SCCmec_type_II(2A)'' = Some req \<and>
      req \<subseteq> {''ccr class 1'', ''ccr class 2'', ''mec class A''})"
proof -
  have a: "perform_sccmec_typing {''ccr class 2'', ''mec class C1''} = []"
    by (simp add: perform_sccmec_typing_def)
  have b: "perform_sccmec_typing {''ccr class 1'', ''ccr class 2'', ''mec class A''} =
             [''SCCmec_type_II(2A)'']"
    by (simp add: perform_sccmec_typing_def)
  have c: "\<not> (\<exists>(t, req) \<in> set SCCMEC_CLASSES. req \<subseteq> {''ccr class 2'', ''mec class C1''})"
    using typer_empty_iff
      [of "{''ccr class 2'', ''mec class C1''}", THEN conjunct1, THEN iffD1, OF a]
    by (simp add: case_prod_beta)
  note e = typer_empty_iff
    [of "{''ccr class 1'', ''ccr class 2'', ''mec class A''}", THEN conjunct2]
  have d: "\<exists>req. map_of SCCMEC_CLASSES ''SCCmec_type_II(2A)'' = Some req \<and>
             req \<subseteq> {''ccr class 1'', ''ccr class 2'', ''mec class A''}"
    using e unfolding b by (simp only: list.set ball_simps)
  show ?thesis
    by (intro conjI) (rule a c b d)+
qed

subsection \<open>The resistance marker\<close>

text \<open>
  Claim C6. For every sequence of lines of the identity-matcher table (the lines after
  the header, in order), the resistance marker after parsing is the marker given by the
  last line that gives one (\<^verbatim>\<open>mecALGA251\<close> or \<^verbatim>\<open>mecA\<close>), and the empty string when no
  line gives one: the last write wins. A line of fewer than four columns is skipped by
  the parser and gives none.
\<close>

theorem last_write_wins:
  "mrsa_gene (parse_db_lines lines) = last_marker lines"
  by (rule mrsa_gene_parse)

theorem last_write_wins_witness:
  "last_marker
     [sample_row ''mecALGA251:1:x'', sample_row ''ccrA1:2'', sample_row ''mec-class-C2:3'',
      ''mecALGA251'' @ [nl], sample_row ''IS1272:1''] = ''mecA'' \<and>
   mrsa_gene (parse_db_lines
     [sample_row ''mecALGA251:1:x'', sample_row ''ccrA1:2'', sample_row ''mec-class-C2:3'',
      ''mecALGA251'' @ [nl], sample_row ''IS1272:1'']) = ''mecA''"
proof -
  have a: "last_marker
     [sample_row ''mecALGA251:1:x'', sample_row ''ccrA1:2'', sample_row ''mec-class-C2:3'',
      ''mecALGA251'' @ [nl], sample_row ''IS1272:1''] = ''mecA''"
    by (simp add: last_marker_def sets_marker_def marker_of_line_def parts_of_def gene_of_def
          py_strip_def py_isspace_def sample_row_def)
  show ?thesis
    using a last_write_wins
      [of "[sample_row ''mecALGA251:1:x'', sample_row ''ccrA1:2'', sample_row ''mec-class-C2:3'',
            ''mecALGA251'' @ [nl], sample_row ''IS1272:1'']"]
    by simp
qed

subsection \<open>Subtype reconciliation\<close>

text \<open>
  Claim C2, as stated, fails: an isolate of the single type \<^verbatim>\<open>SCCmec_type_IV(2B)\<close> with
  two subtyping genes and no homology hit gets a report without the alert line, because
  line 320 also asks for a subtype in the best homology hit.
\<close>

theorem reconciliation_without_homology_counterexample:
  "sccmec_types ev_two_subtypes = [''SCCmec_type_IV(2B)''] \<and>
   1 < card (subtyping_genes ev_two_subtypes) \<and>
   main_core (listed_order []) sample_float ev_two_subtypes [] =
     Inr (''The input organism was predicted as a MRSA isolate'' @ [nl] @
          ''The mecA gene was detected'' @ [nl, nl] @
          ''Prediction based on genes: SCCmec_type_IV(2B)'' @ [nl],
          ''SCCmec elements'' @ [nl] @ ''no whole SCCmec cassette was found'' @ [nl]) \<and>
   ''Alert! Multiple subtype target genes detected.'' \<notin>
     set (py_split nl
       (''The input organism was predicted as a MRSA isolate'' @ [nl] @
        ''The mecA gene was detected'' @ [nl, nl] @
        ''Prediction based on genes: SCCmec_type_IV(2B)'' @ [nl]))"
proof (intro conjI)
  show "sccmec_types ev_two_subtypes = [''SCCmec_type_IV(2B)'']"
    by (rule types_two_subtypes)
  show "1 < card (subtyping_genes ev_two_subtypes)"
    by (simp add: card_two_subtypes)
  have "result_text (listed_order []) ev_two_subtypes [] =
     Inr (''The input organism was predicted as a MRSA isolate'' @ [nl] @
          ''The mecA gene was detected'' @ [nl, nl] @
          ''Prediction based on genes: SCCmec_type_IV(2B)'' @ [nl])"
    by (simp add: report_defs types_two_subtypes)
       (simp add: ev_two_subtypes_def all_classes_def total_genes_def table_defs
          perform_ccr_gene_complex_typing_def perform_mec_gene_complex_typing_def)
  then show "main_core (listed_order []) sample_float ev_two_subtypes [] =
     Inr (''The input organism was predicted as a MRSA isolate'' @ [nl] @
          ''The mecA gene was detected'' @ [nl, nl] @
          ''Prediction based on genes: SCCmec_type_IV(2B)'' @ [nl],
          ''SCCmec elements'' @ [nl] @ ''no whole SCCmec cassette was found'' @ [nl])"
    by (simp add: main_core_def kmer_sorted_empty html_text_def)
  show "''Alert! Multiple subtype target genes detected.'' \<notin>
     set (py_split nl
       (''The input organism was predicted as a MRSA isolate'' @ [nl] @
        ''The mecA gene was detected'' @ [nl, nl] @
        ''Prediction based on genes: SCCmec_type_IV(2B)'' @ [nl]))"
    by simp
qed

text \<open>
  Claim C2, amended. The flag of lines 285 to 291 is set exactly when the type list has
  one element and that element is one of \<^verbatim>\<open>SCCmec_type_IV(2B)\<close>, \<^verbatim>\<open>SCCmec_type_V(5C2)\<close>,
  \<^verbatim>\<open>SCCmec_type_V(5C2&5)\<close>. Subtype reconciliation runs exactly when the flag is set and
  the best homology hit's template name has a non-empty subtype after its first bar:
  otherwise the two texts written do not depend on the subtyping genes at all. Whenever
  it runs with more than one subtyping gene, the report is the resistance lines, the line
  \<^verbatim>\<open>Alert! Multiple subtype target genes detected.\<close>, then directly the line of the type
  and what follows it, so that no subtype line based on genes is written.
\<close>

theorem reconciliation_guard:
  assumes "kmer_sorted pyfloat kmer_results = Inr kmer_hits"
  shows "(perform_subtyping (sccmec_types ev) \<longleftrightarrow>
            (\<exists>t. sccmec_types ev = [t] \<and>
                 t \<in> {''SCCmec_type_IV(2B)'', ''SCCmec_type_V(5C2&5)'', ''SCCmec_type_V(5C2)''})) \<and>
         (\<not> (perform_subtyping (sccmec_types ev) \<and> kmer_subtype kmer_hits \<noteq> []) \<longrightarrow>
            (\<forall>sg. main_core iter pyfloat (ev\<lparr>subtyping_genes := sg\<rparr>) kmer_results =
                  main_core iter pyfloat ev kmer_results)) \<and>
         (perform_subtyping (sccmec_types ev) \<and> kmer_subtype kmer_hits \<noteq> [] \<and>
          1 < card (subtyping_genes ev) \<longrightarrow>
            (\<exists>text. main_core iter pyfloat ev kmer_results = Inr (text, html_text kmer_hits) \<and>
               text = resistance_lines (mrsa_gene ev) @
                      ''Alert! Multiple subtype target genes detected.'' @ [nl] @
                      ''Prediction based on genes: '' @ sccmec_types ev ! 0 @ [nl] @
                      homology_line kmer_hits @
                      additional_sections iter ev (sccmec_types ev ! 0) \<and>
               ''Alert! Multiple subtype target genes detected.'' \<in> set (py_split nl text)))"
proof (intro conjI impI allI)
  show "perform_subtyping (sccmec_types ev) \<longleftrightarrow>
          (\<exists>t. sccmec_types ev = [t] \<and>
               t \<in> {''SCCmec_type_IV(2B)'', ''SCCmec_type_V(5C2&5)'', ''SCCmec_type_V(5C2)''})"
    by (rule perform_subtyping_iff)
next
  fix sg
  assume "\<not> (perform_subtyping (sccmec_types ev) \<and> kmer_subtype kmer_hits \<noteq> [])"
  then show "main_core iter pyfloat (ev\<lparr>subtyping_genes := sg\<rparr>) kmer_results =
             main_core iter pyfloat ev kmer_results"
    by (simp add: main_core_sorted [OF assms] result_text_guard_closed)
next
  assume g: "perform_subtyping (sccmec_types ev) \<and> kmer_subtype kmer_hits \<noteq> [] \<and>
             1 < card (subtyping_genes ev)"
  then have "result_text iter ev kmer_hits =
     Inr (resistance_lines (mrsa_gene ev) @
          ''Alert! Multiple subtype target genes detected.'' @ [nl] @
          ''Prediction based on genes: '' @ sccmec_types ev ! 0 @ [nl] @
          homology_line kmer_hits @ additional_sections iter ev (sccmec_types ev ! 0))"
    by (simp add: result_text_alert)
  then show "\<exists>text. main_core iter pyfloat ev kmer_results = Inr (text, html_text kmer_hits) \<and>
               text = resistance_lines (mrsa_gene ev) @
                      ''Alert! Multiple subtype target genes detected.'' @ [nl] @
                      ''Prediction based on genes: '' @ sccmec_types ev ! 0 @ [nl] @
                      homology_line kmer_hits @
                      additional_sections iter ev (sccmec_types ev ! 0) \<and>
               ''Alert! Multiple subtype target genes detected.'' \<in> set (py_split nl text)"
    using alert_line_present by (simp add: main_core_sorted [OF assms])
qed

theorem reconciliation_guard_witness:
  "kmer_sorted sample_float hits_IVa = Inr hits_IVa \<and>
   perform_subtyping (sccmec_types ev_two_subtypes) \<and>
   kmer_subtype hits_IVa = ''SCCmec_type_IVa'' \<and>
   1 < card (subtyping_genes ev_two_subtypes) \<and>
   main_core (listed_order []) sample_float ev_two_subtypes hits_IVa =
     Inr (''The input organism was predicted as a MRSA isolate'' @ [nl] @
          ''The mecA gene was detected'' @ [nl, nl] @
          ''Alert! Multiple subtype target genes detected.'' @ [nl] @
          ''Prediction based on genes: SCCmec_type_IV(2B)'' @ [nl] @
          ''Prediction based on homology: SCCmec_type_IV(2B) (80.0% coverage)'' @ [nl],
          html_text hits_IVa) \<and>
   kmer_subtype [] = [] \<and>
   main_core (listed_order []) sample_float (ev_two_subtypes\<lparr>subtyping_genes := {}\<rparr>) [] =
     main_core (listed_order []) sample_float ev_two_subtypes []"
proof -
  have k: "kmer_subtype hits_IVa = ''SCCmec_type_IVa''"
    by (simp add: kmer_subtype_def hits_IVa_def)
  have p: "perform_subtyping (sccmec_types ev_two_subtypes)"
    by (simp add: types_two_subtypes perform_subtyping_def)
  have c: "1 < card (subtyping_genes ev_two_subtypes)"
    by (simp add: card_two_subtypes)
  have g: "perform_subtyping (sccmec_types ev_two_subtypes) \<and> kmer_subtype hits_IVa \<noteq> [] \<and>
           1 < card (subtyping_genes ev_two_subtypes)"
    using p c by (simp add: k)
  have e: "kmer_subtype [] = []"
    by (simp add: kmer_subtype_def)
  have n: "\<not> (perform_subtyping (sccmec_types ev_two_subtypes) \<and> kmer_subtype [] \<noteq> [])"
    by (simp add: e)
  have h: "homology_line hits_IVa =
             ''Prediction based on homology: SCCmec_type_IV(2B) (80.0% coverage)'' @ [nl]"
    by (simp add: homology_line_def best_kmer_hit_def hits_IVa_def sample_record_def)
  have a: "additional_sections (listed_order []) ev_two_subtypes ''SCCmec_type_IV(2B)'' = []"
    by (simp add: additional_sections_def ev_two_subtypes_def all_classes_def total_genes_def
          table_defs perform_ccr_gene_complex_typing_def perform_mec_gene_complex_typing_def)
  have r: "resistance_lines (mrsa_gene ev_two_subtypes) =
             ''The input organism was predicted as a MRSA isolate'' @ [nl] @
             ''The mecA gene was detected'' @ [nl, nl]"
    by (simp add: resistance_lines_def ev_two_subtypes_def)
  note open_guard = reconciliation_guard
    [where ev = ev_two_subtypes and iter = "listed_order []", OF kmer_sorted_hits_IVa,
      THEN conjunct2, THEN conjunct2, THEN mp, OF g]
  note closed_guard = reconciliation_guard
    [where ev = ev_two_subtypes and iter = "listed_order []" and pyfloat = sample_float,
      OF kmer_sorted_empty, THEN conjunct2, THEN conjunct1, THEN mp, OF n, THEN spec,
      of "{}"]
  from open_guard have m: "main_core (listed_order []) sample_float ev_two_subtypes hits_IVa =
     Inr (''The input organism was predicted as a MRSA isolate'' @ [nl] @
          ''The mecA gene was detected'' @ [nl, nl] @
          ''Alert! Multiple subtype target genes detected.'' @ [nl] @
          ''Prediction based on genes: SCCmec_type_IV(2B)'' @ [nl] @
          ''Prediction based on homology: SCCmec_type_IV(2B) (80.0% coverage)'' @ [nl],
          html_text hits_IVa)"
    by (simp add: types_two_subtypes h a r)
  show ?thesis
    by (intro conjI) (rule kmer_sorted_hits_IVa p k c m e closed_guard)+
qed

subsection \<open>Ranking of the homology hits\<close>

lemma kmer_sorted_Inr:
  assumes "\<forall>x \<in> set kmer_results. pyfloat (Score (snd x)) \<noteq> None"
  shows "kmer_sorted pyfloat kmer_results =
           Inr (rev (sort_key (score_key pyfloat) (rev kmer_results)))"
  using assms by (auto simp: kmer_sorted_def list_ex_iff)



lemma result_text_none:
  assumes "sccmec_types ev = []"
  shows "result_text iter ev hits =
     Inr (resistance_lines (mrsa_gene ev) @
          ''No SCCmec element was detected'' @ [nl] @
          (if all_classes ev \<noteq> {} then
             [nl] @ ''Detected gene complexes:'' @ [nl] @
             py_join [nl] (iter (all_classes ev)) @ [nl]
           else []) @
          best_match_section iter ev hits)"
  using assms by (simp add: result_text_def)

lemma result_text_single:
  assumes "sccmec_types ev = [t]"
  shows "result_text iter ev hits =
     (case subtype_lines iter (perform_subtyping [t]) (kmer_subtype hits) (subtyping_genes ev) t of
        Inl e \<Rightarrow> Inl e
      | Inr subtype_text \<Rightarrow>
          Inr (resistance_lines (mrsa_gene ev) @ subtype_text @
               ''Prediction based on genes: '' @ t @ [nl] @
               homology_line hits @ additional_sections iter ev t))"
  using assms by (simp add: result_text_def)

lemma best_match_section_Cons:
  "best_match_section iter ev (hit # rest) =
     [nl] @ ''Best homology match: '' @ fst hit @ '' ('' @ template_coverage (snd hit) @
       ''% coverage)'' @ [nl] @
     (if dict_get SCCMEC_DEFINITIONS (py_split CHR ''|'' (fst hit) ! 0) - total_genes ev \<noteq> {}
        then [nl] @ ''Missing genes for this cassette:'' @ [nl] @
             py_join [nl]
               (iter (dict_get SCCMEC_DEFINITIONS (py_split CHR ''|'' (fst hit) ! 0) -
                      total_genes ev)) @ [nl]
      else [])"
  by (simp add: best_match_section_def Let_def)







subsection \<open>Determinism of the report\<close>

lemma order_ok_small:
  assumes "card S \<le> 1" and "order_ok iter1 S" and "order_ok iter2 S"
  shows "iter1 S = iter2 S"
proof -
  have l: "length (iter1 S) = card S" "length (iter2 S) = card S"
    using assms(2,3) by (auto simp: order_ok_def dest: distinct_card)
  show ?thesis
  proof (cases "iter1 S")
    case Nil
    with l show ?thesis by simp
  next
    case (Cons x xs)
    from l assms(1) have "length (iter1 S) \<le> 1" by simp
    with Cons have x: "iter1 S = [x]" by simp
    with l obtain y where y: "iter2 S = [y]"
      by (cases "iter2 S") auto
    from x y assms(2,3) have "{x} = {y}"
      by (simp add: order_ok_def)
    with x y show ?thesis by simp
  qed
qed

lemma result_text_same_order:
  assumes "\<forall>S \<in> set (iterated_sets ev hits). iter1 S = iter2 S"
  shows "result_text iter1 ev hits = result_text iter2 ev hits"
proof (cases "sccmec_types ev")
  case Nil
  with assms have a: "iter1 (all_classes ev) = iter2 (all_classes ev)"
    by (simp add: iterated_sets_def)
  have b: "best_match_section iter1 ev hits = best_match_section iter2 ev hits"
  proof (cases hits)
    case Nil
    then show ?thesis by (simp add: best_match_section_def)
  next
    case (Cons hit rest)
    with assms \<open>sccmec_types ev = []\<close>
    have "iter1 (dict_get SCCMEC_DEFINITIONS (py_split CHR ''|'' (fst hit) ! 0) - total_genes ev) =
          iter2 (dict_get SCCMEC_DEFINITIONS (py_split CHR ''|'' (fst hit) ! 0) - total_genes ev)"
      by (simp add: iterated_sets_def)
    then show ?thesis
      unfolding Cons best_match_section_Cons by simp
  qed
  show ?thesis
    unfolding result_text_none [OF Nil] a b ..
next
  case (Cons t ts)
  show ?thesis
  proof (cases ts)
    case Nil
    with Cons have single: "sccmec_types ev = [t]" by simp
    with assms have
      a: "iter1 (subtyping_genes ev) = iter2 (subtyping_genes ev)" and
      b: "iter1 (all_classes ev - dict_get SCCMEC_CLASSES t) =
          iter2 (all_classes ev - dict_get SCCMEC_CLASSES t)" and
      c: "iter1 (total_genes ev - dict_get SCCMEC_DEFINITIONS t) =
          iter2 (total_genes ev - dict_get SCCMEC_DEFINITIONS t)"
      by (simp_all add: iterated_sets_def)
    have d: "subtype_lines iter1 p k (subtyping_genes ev) t =
             subtype_lines iter2 p k (subtyping_genes ev) t" for p k
      by (simp add: subtype_lines_def a)
    have e: "additional_sections iter1 ev t = additional_sections iter2 ev t"
      by (simp add: additional_sections_def b c)
    show ?thesis
      unfolding result_text_single [OF single] d e ..
  next
    case (Cons t' ts')
    with \<open>sccmec_types ev = t # ts\<close> show ?thesis
      by (simp add: result_text_def)
  qed
qed

text \<open>
  Claim C9, as stated, fails: Python does not fix the order in which a set of strings is
  iterated (string hashes are salted anew in every process), and the report joins sets.
  The isolate \<open>ev_two_ccr\<close> has two detected complexes and no type; the two orders of
  the set of its complexes give two different report texts.
\<close>

theorem report_order_counterexample:
  "order_ok (listed_order [''ccr class 1'', ''ccr class 2'']) (all_classes ev_two_ccr) \<and>
   order_ok (listed_order [''ccr class 2'', ''ccr class 1'']) (all_classes ev_two_ccr) \<and>
   main_core (listed_order [''ccr class 1'', ''ccr class 2'']) sample_float ev_two_ccr [] =
     Inr (''The input organism was predicted as a MSSA isolate'' @ [nl] @
          ''The mecA/mecC gene was not detected'' @ [nl, nl] @
          ''No SCCmec element was detected'' @ [nl, nl] @
          ''Detected gene complexes:'' @ [nl] @
          ''ccr class 1'' @ [nl] @ ''ccr class 2'' @ [nl],
          ''SCCmec elements'' @ [nl] @ ''no whole SCCmec cassette was found'' @ [nl]) \<and>
   main_core (listed_order [''ccr class 2'', ''ccr class 1'']) sample_float ev_two_ccr [] =
     Inr (''The input organism was predicted as a MSSA isolate'' @ [nl] @
          ''The mecA/mecC gene was not detected'' @ [nl, nl] @
          ''No SCCmec element was detected'' @ [nl, nl] @
          ''Detected gene complexes:'' @ [nl] @
          ''ccr class 2'' @ [nl] @ ''ccr class 1'' @ [nl],
          ''SCCmec elements'' @ [nl] @ ''no whole SCCmec cassette was found'' @ [nl]) \<and>
   main_core (listed_order [''ccr class 1'', ''ccr class 2'']) sample_float ev_two_ccr [] \<noteq>
   main_core (listed_order [''ccr class 2'', ''ccr class 1'']) sample_float ev_two_ccr []"
proof -
  have c: "all_classes ev_two_ccr = {''ccr class 1'', ''ccr class 2''}"
    by (simp add: all_classes_def ev_two_ccr_def perform_ccr_gene_complex_typing_def
          perform_mec_gene_complex_typing_def)
  have t: "sccmec_types ev_two_ccr = []"
    by (simp add: sccmec_types_def c perform_sccmec_typing_def)
  have m: "mrsa_gene ev_two_ccr = []"
    by (simp add: ev_two_ccr_def)
  have o1: "order_ok (listed_order [''ccr class 1'', ''ccr class 2'']) (all_classes ev_two_ccr)"
    by (simp add: order_ok_def listed_order_def c)
  have o2: "order_ok (listed_order [''ccr class 2'', ''ccr class 1'']) (all_classes ev_two_ccr)"
    by (auto simp add: order_ok_def listed_order_def c)
  have r1: "main_core (listed_order [''ccr class 1'', ''ccr class 2'']) sample_float ev_two_ccr [] =
     Inr (''The input organism was predicted as a MSSA isolate'' @ [nl] @
          ''The mecA/mecC gene was not detected'' @ [nl, nl] @
          ''No SCCmec element was detected'' @ [nl, nl] @
          ''Detected gene complexes:'' @ [nl] @
          ''ccr class 1'' @ [nl] @ ''ccr class 2'' @ [nl],
          ''SCCmec elements'' @ [nl] @ ''no whole SCCmec cassette was found'' @ [nl])"
    by (simp add: main_core_def kmer_sorted_empty result_text_none [OF t] m c
          resistance_lines_def best_match_section_def listed_order_def html_text_def)
  have r2: "main_core (listed_order [''ccr class 2'', ''ccr class 1'']) sample_float ev_two_ccr [] =
     Inr (''The input organism was predicted as a MSSA isolate'' @ [nl] @
          ''The mecA/mecC gene was not detected'' @ [nl, nl] @
          ''No SCCmec element was detected'' @ [nl, nl] @
          ''Detected gene complexes:'' @ [nl] @
          ''ccr class 2'' @ [nl] @ ''ccr class 1'' @ [nl],
          ''SCCmec elements'' @ [nl] @ ''no whole SCCmec cassette was found'' @ [nl])"
    by (simp add: main_core_def kmer_sorted_empty result_text_none [OF t] m c
          resistance_lines_def best_match_section_def listed_order_def html_text_def)
  have ne: "main_core (listed_order [''ccr class 1'', ''ccr class 2'']) sample_float ev_two_ccr [] \<noteq>
            main_core (listed_order [''ccr class 2'', ''ccr class 1'']) sample_float ev_two_ccr []"
    unfolding r1 r2 by simp
  show ?thesis
    by (intro conjI) (rule o1 o2 r1 r2 ne)+
qed

text \<open>
  Claim C9, amended. The report is a function of the evidence, the resistance marker, the
  homology hits in their order, and of the order in which the run iterates the sets it
  joins or lists (the additional complexes, the additional genes, the missing genes, the
  detected complexes, and the subtyping genes): two runs on identical inputs that
  iterate these sets in the same order write byte-identical texts. In particular they do
  so when each of these sets has at most one element.
\<close>

theorem report_determined_by_order:
  "((\<forall>kmer_hits. kmer_sorted pyfloat kmer_results = Inr kmer_hits \<longrightarrow>
       (\<forall>S \<in> set (iterated_sets ev kmer_hits). iter1 S = iter2 S)) \<longrightarrow>
    main_core iter1 pyfloat ev kmer_results = main_core iter2 pyfloat ev kmer_results) \<and>
   ((\<forall>kmer_hits. kmer_sorted pyfloat kmer_results = Inr kmer_hits \<longrightarrow>
       (\<forall>S \<in> set (iterated_sets ev kmer_hits).
          card S \<le> 1 \<and> order_ok iter1 S \<and> order_ok iter2 S)) \<longrightarrow>
    main_core iter1 pyfloat ev kmer_results = main_core iter2 pyfloat ev kmer_results)"
proof -
  have same: "main_core iter1 pyfloat ev kmer_results = main_core iter2 pyfloat ev kmer_results"
    if h: "\<forall>kmer_hits. kmer_sorted pyfloat kmer_results = Inr kmer_hits \<longrightarrow>
             (\<forall>S \<in> set (iterated_sets ev kmer_hits). iter1 S = iter2 S)"
  proof (cases "kmer_sorted pyfloat kmer_results")
    case (Inl e)
    then show ?thesis by (simp add: main_core_def)
  next
    case (Inr kmer_hits)
    with h have "\<forall>S \<in> set (iterated_sets ev kmer_hits). iter1 S = iter2 S"
      by simp
    then have "result_text iter1 ev kmer_hits = result_text iter2 ev kmer_hits"
      by (rule result_text_same_order)
    then show ?thesis
      by (simp add: main_core_sorted [OF Inr])
  qed
  have small: "main_core iter1 pyfloat ev kmer_results = main_core iter2 pyfloat ev kmer_results"
    if h: "\<forall>kmer_hits. kmer_sorted pyfloat kmer_results = Inr kmer_hits \<longrightarrow>
             (\<forall>S \<in> set (iterated_sets ev kmer_hits).
                card S \<le> 1 \<and> order_ok iter1 S \<and> order_ok iter2 S)"
  proof (rule same, intro allI impI ballI)
    fix kmer_hits S
    assume "kmer_sorted pyfloat kmer_results = Inr kmer_hits"
      and "S \<in> set (iterated_sets ev kmer_hits)"
    with h have "card S \<le> 1 \<and> order_ok iter1 S \<and> order_ok iter2 S"
      by simp
    then show "iter1 S = iter2 S"
      by (simp add: order_ok_small)
  qed
  from same small show ?thesis
    by (intro conjI impI)
qed

theorem report_determined_by_order_witness:
  "kmer_sorted sample_float hits_IVa = Inr hits_IVa \<and>
   iterated_sets ev_two_subtypes hits_IVa = [{''subtype-IVa'', ''subtype-IVc''}, {}, {}] \<and>
   listed_order [''subtype-IVa'', ''subtype-IVc''] {''subtype-IVa'', ''subtype-IVc''} =
     listed_order [''subtype-IVa'', ''subtype-IVc'', ''mecA''] {''subtype-IVa'', ''subtype-IVc''} \<and>
   listed_order [''subtype-IVa'', ''subtype-IVc''] {''mecA''} \<noteq>
     listed_order [''subtype-IVa'', ''subtype-IVc'', ''mecA''] {''mecA''} \<and>
   main_core (listed_order [''subtype-IVa'', ''subtype-IVc'']) sample_float
       ev_two_subtypes hits_IVa =
     main_core (listed_order [''subtype-IVa'', ''subtype-IVc'', ''mecA'']) sample_float
       ev_two_subtypes hits_IVa"
proof -
  have i: "iterated_sets ev_two_subtypes hits_IVa = [{''subtype-IVa'', ''subtype-IVc''}, {}, {}]"
    by (simp add: iterated_sets_def types_two_subtypes)
       (simp add: ev_two_subtypes_def all_classes_def total_genes_def table_defs
          perform_ccr_gene_complex_typing_def perform_mec_gene_complex_typing_def)
  have a: "listed_order [''subtype-IVa'', ''subtype-IVc''] {''subtype-IVa'', ''subtype-IVc''} =
     listed_order [''subtype-IVa'', ''subtype-IVc'', ''mecA''] {''subtype-IVa'', ''subtype-IVc''}"
    by (simp add: listed_order_def)
  have b: "listed_order [''subtype-IVa'', ''subtype-IVc''] {''mecA''} \<noteq>
     listed_order [''subtype-IVa'', ''subtype-IVc'', ''mecA''] {''mecA''}"
    by (simp add: listed_order_def)
  have e: "listed_order [''subtype-IVa'', ''subtype-IVc''] {} =
           listed_order [''subtype-IVa'', ''subtype-IVc'', ''mecA''] {}"
    by (simp add: listed_order_def)
  have h: "\<forall>kmer_hits. kmer_sorted sample_float hits_IVa = Inr kmer_hits \<longrightarrow>
       (\<forall>S \<in> set (iterated_sets ev_two_subtypes kmer_hits).
          listed_order [''subtype-IVa'', ''subtype-IVc''] S =
          listed_order [''subtype-IVa'', ''subtype-IVc'', ''mecA''] S)"
    using a e by (simp add: kmer_sorted_hits_IVa i)
  note r = report_determined_by_order
    [where pyfloat = sample_float and kmer_results = hits_IVa and ev = ev_two_subtypes,
      THEN conjunct1, THEN mp, OF h]
  show ?thesis
    by (intro conjI) (rule kmer_sorted_hits_IVa i a b r)+
qed

subsection \<open>The two set differences\<close>

lemma split_join:
  "xs \<noteq> [] \<Longrightarrow> \<forall>x \<in> set xs. c \<notin> set x \<Longrightarrow> py_split c (py_join [c] xs) = xs"
proof (induction "[c]" xs rule: py_join.induct)
  case 1
  then show ?case by simp
next
  case (2 x)
  then show ?case by (simp add: py_split_none)
next
  case (3 x y ys)
  then show ?case
    using py_split_append [of c x "py_join [c] (y # ys)"]
    by (simp add: py_split_none)
qed

lemma result_text_single_Inr:
  assumes "sccmec_types ev = [t]" and "result_text iter ev hits = Inr text"
  shows "\<exists>subtype_text.
     text = resistance_lines (mrsa_gene ev) @ subtype_text @
            ''Prediction based on genes: '' @ t @ [nl] @
            homology_line hits @ additional_sections iter ev t"
  using assms(2) unfolding result_text_single [OF assms(1)]
  by (auto split: sum.splits)

lemma main_core_Inr:
  assumes "kmer_sorted pyfloat kmer_results = Inr kmer_hits"
    and "main_core iter pyfloat ev kmer_results = Inr (text, html)"
  shows "result_text iter ev kmer_hits = Inr text" and "html = html_text kmer_hits"
  using assms(2) unfolding main_core_sorted [OF assms(1)]
  by (auto split: sum.splits)

text \<open>
  Claim C7. In the branch of a single type the report ends with the additional
  complexes, the detected class set minus the reference complex set of the type, and the
  additional genes, the detected total gene set minus the reference gene set of the type,
  each section written only if the difference is non-empty. In the branch without a type
  and with a homology hit it ends with the missing genes, the reference gene set of the
  best hit's template minus the detected total gene set: the difference is taken the
  other way round. Where a section is written, its body is the join of the difference
  in the run's iteration order; read back line by line it lists the elements of the
  difference, each once.
\<close>

theorem difference_directions:
  assumes "kmer_sorted pyfloat kmer_results = Inr kmer_hits"
    and "main_core iter pyfloat ev kmer_results = Inr (text, html)"
  shows
  "(\<forall>t. sccmec_types ev = [t] \<longrightarrow>
      (\<exists>subtype_text.
         text = resistance_lines (mrsa_gene ev) @ subtype_text @
                ''Prediction based on genes: '' @ t @ [nl] @ homology_line kmer_hits @
                (if all_classes ev - dict_get SCCMEC_CLASSES t \<noteq> {} then
                   [nl] @ ''Additional complexes found:'' @ [nl] @
                   py_join [nl] (iter (all_classes ev - dict_get SCCMEC_CLASSES t)) @ [nl]
                 else []) @
                (if total_genes ev - dict_get SCCMEC_DEFINITIONS t \<noteq> {} then
                   [nl] @ ''Additional genes found:'' @ [nl] @
                   py_join [nl] (iter (total_genes ev - dict_get SCCMEC_DEFINITIONS t)) @ [nl]
                 else []))) \<and>
   (\<forall>hit rest. sccmec_types ev = [] \<and> kmer_hits = hit # rest \<longrightarrow>
      text = resistance_lines (mrsa_gene ev) @
             ''No SCCmec element was detected'' @ [nl] @
             (if all_classes ev \<noteq> {} then
                [nl] @ ''Detected gene complexes:'' @ [nl] @
                py_join [nl] (iter (all_classes ev)) @ [nl]
              else []) @
             [nl] @ ''Best homology match: '' @ fst hit @ '' ('' @
               template_coverage (snd hit) @ ''% coverage)'' @ [nl] @
             (if dict_get SCCMEC_DEFINITIONS (py_split CHR ''|'' (fst hit) ! 0) - total_genes ev
                   \<noteq> {} then
                [nl] @ ''Missing genes for this cassette:'' @ [nl] @
                py_join [nl]
                  (iter (dict_get SCCMEC_DEFINITIONS (py_split CHR ''|'' (fst hit) ! 0) -
                         total_genes ev)) @ [nl]
              else [])) \<and>
   (\<forall>D. D \<noteq> {} \<and> order_ok iter D \<and> (\<forall>g \<in> D. nl \<notin> set g) \<longrightarrow>
      py_split nl (py_join [nl] (iter D)) = iter D \<and> set (iter D) = D \<and> distinct (iter D))"
proof (intro conjI allI impI)
  fix t
  assume single: "sccmec_types ev = [t]"
  from result_text_single_Inr [OF single main_core_Inr(1) [OF assms]]
  show "\<exists>subtype_text.
         text = resistance_lines (mrsa_gene ev) @ subtype_text @
                ''Prediction based on genes: '' @ t @ [nl] @ homology_line kmer_hits @
                (if all_classes ev - dict_get SCCMEC_CLASSES t \<noteq> {} then
                   [nl] @ ''Additional complexes found:'' @ [nl] @
                   py_join [nl] (iter (all_classes ev - dict_get SCCMEC_CLASSES t)) @ [nl]
                 else []) @
                (if total_genes ev - dict_get SCCMEC_DEFINITIONS t \<noteq> {} then
                   [nl] @ ''Additional genes found:'' @ [nl] @
                   py_join [nl] (iter (total_genes ev - dict_get SCCMEC_DEFINITIONS t)) @ [nl]
                 else [])"
    by (simp only: additional_sections_def Let_def)
next
  fix hit rest
  assume none: "sccmec_types ev = [] \<and> kmer_hits = hit # rest"
  then have n: "sccmec_types ev = []" and k: "kmer_hits = hit # rest"
    by simp_all
  from main_core_Inr(1) [OF assms]
  show "text = resistance_lines (mrsa_gene ev) @
             ''No SCCmec element was detected'' @ [nl] @
             (if all_classes ev \<noteq> {} then
                [nl] @ ''Detected gene complexes:'' @ [nl] @
                py_join [nl] (iter (all_classes ev)) @ [nl]
              else []) @
             [nl] @ ''Best homology match: '' @ fst hit @ '' ('' @
               template_coverage (snd hit) @ ''% coverage)'' @ [nl] @
             (if dict_get SCCMEC_DEFINITIONS (py_split CHR ''|'' (fst hit) ! 0) - total_genes ev
                   \<noteq> {} then
                [nl] @ ''Missing genes for this cassette:'' @ [nl] @
                py_join [nl]
                  (iter (dict_get SCCMEC_DEFINITIONS (py_split CHR ''|'' (fst hit) ! 0) -
                         total_genes ev)) @ [nl]
              else [])"
    unfolding k result_text_none [OF n] best_match_section_Cons by simp
next
  fix D
  assume d: "D \<noteq> {} \<and> order_ok iter D \<and> (\<forall>g \<in> D. nl \<notin> set g)"
  then have s: "set (iter D) = D" and "distinct (iter D)"
    by (simp_all add: order_ok_def)
  moreover from d s have "iter D \<noteq> []" and "\<forall>x \<in> set (iter D). nl \<notin> set x"
    by auto
  then have "py_split nl (py_join [nl] (iter D)) = iter D"
    by (rule split_join)
  ultimately show "py_split nl (py_join [nl] (iter D)) = iter D" and "set (iter D) = D"
    and "distinct (iter D)"
    by simp_all
qed

theorem difference_directions_witness:
  "kmer_sorted sample_float [] = Inr [] \<and>
   sccmec_types ev_extra = [''SCCmec_type_II(2A)''] \<and>
   all_classes ev_extra - dict_get SCCMEC_CLASSES ''SCCmec_type_II(2A)'' = {''ccr class 6''} \<and>
   total_genes ev_extra - dict_get SCCMEC_DEFINITIONS ''SCCmec_type_II(2A)'' =
     {''ccrA5'', ''ccrB3'', ''IS1272''} \<and>
   main_core gene_order sample_float ev_extra [] =
     Inr (''The input organism was predicted as a MRSA isolate'' @ [nl] @
          ''The mecA gene was detected'' @ [nl, nl] @
          ''Prediction based on genes: SCCmec_type_II(2A)'' @ [nl, nl] @
          ''Additional complexes found:'' @ [nl] @
          ''ccr class 6'' @ [nl, nl] @
          ''Additional genes found:'' @ [nl] @
          ''ccrA5'' @ [nl] @ ''ccrB3'' @ [nl] @ ''IS1272'' @ [nl],
          html_text []) \<and>
   (\<exists>subtype_text.
      ''The input organism was predicted as a MRSA isolate'' @ [nl] @
      ''The mecA gene was detected'' @ [nl, nl] @
      ''Prediction based on genes: SCCmec_type_II(2A)'' @ [nl, nl] @
      ''Additional complexes found:'' @ [nl] @
      ''ccr class 6'' @ [nl, nl] @
      ''Additional genes found:'' @ [nl] @
      ''ccrA5'' @ [nl] @ ''ccrB3'' @ [nl] @ ''IS1272'' @ [nl] =
      resistance_lines ''mecA'' @ subtype_text @
      ''Prediction based on genes: '' @ ''SCCmec_type_II(2A)'' @ [nl] @ homology_line [] @
      [nl] @ ''Additional complexes found:'' @ [nl] @
      py_join [nl] (gene_order {''ccr class 6''}) @ [nl] @
      [nl] @ ''Additional genes found:'' @ [nl] @
      py_join [nl] (gene_order {''ccrA5'', ''ccrB3'', ''IS1272''}) @ [nl]) \<and>
   kmer_sorted sample_float hits_IIvar = Inr hits_IIvar \<and>
   sccmec_types initial_evidence = [] \<and>
   py_split CHR ''|'' ''SCCmec_type_II(2A)|var1'' ! 0 = ''SCCmec_type_II(2A)'' \<and>
   dict_get SCCMEC_DEFINITIONS ''SCCmec_type_II(2A)'' - total_genes initial_evidence =
     {''ccrA2'', ''ccrB2'', ''mecA'', ''mecR1'', ''mecI''} \<and>
   main_core gene_order sample_float initial_evidence hits_IIvar =
     Inr (''The input organism was predicted as a MSSA isolate'' @ [nl] @
          ''The mecA/mecC gene was not detected'' @ [nl, nl] @
          ''No SCCmec element was detected'' @ [nl, nl] @
          ''Best homology match: SCCmec_type_II(2A)|var1 (75.5% coverage)'' @ [nl, nl] @
          ''Missing genes for this cassette:'' @ [nl] @
          ''ccrA2'' @ [nl] @ ''ccrB2'' @ [nl] @ ''mecA'' @ [nl] @ ''mecI'' @ [nl] @
          ''mecR1'' @ [nl],
          html_text hits_IIvar) \<and>
   ''The input organism was predicted as a MSSA isolate'' @ [nl] @
   ''The mecA/mecC gene was not detected'' @ [nl, nl] @
   ''No SCCmec element was detected'' @ [nl, nl] @
   ''Best homology match: SCCmec_type_II(2A)|var1 (75.5% coverage)'' @ [nl, nl] @
   ''Missing genes for this cassette:'' @ [nl] @
   ''ccrA2'' @ [nl] @ ''ccrB2'' @ [nl] @ ''mecA'' @ [nl] @ ''mecI'' @ [nl] @
   ''mecR1'' @ [nl] =
     resistance_lines [] @ ''No SCCmec element was detected'' @ [nl] @
     [nl] @ ''Best homology match: '' @ ''SCCmec_type_II(2A)|var1'' @ '' ('' @ ''75.5'' @
       ''% coverage)'' @ [nl] @
     [nl] @ ''Missing genes for this cassette:'' @ [nl] @
     py_join [nl] (gene_order {''ccrA2'', ''ccrB2'', ''mecA'', ''mecR1'', ''mecI''}) @ [nl] \<and>
   order_ok gene_order {''ccrA5'', ''ccrB3'', ''IS1272''} \<and>
   py_split nl (py_join [nl] (gene_order {''ccrA5'', ''ccrB3'', ''IS1272''})) =
     gene_order {''ccrA5'', ''ccrB3'', ''IS1272''}"
proof -
  let ?text1 = "''The input organism was predicted as a MRSA isolate'' @ [nl] @
          ''The mecA gene was detected'' @ [nl, nl] @
          ''Prediction based on genes: SCCmec_type_II(2A)'' @ [nl, nl] @
          ''Additional complexes found:'' @ [nl] @
          ''ccr class 6'' @ [nl, nl] @
          ''Additional genes found:'' @ [nl] @
          ''ccrA5'' @ [nl] @ ''ccrB3'' @ [nl] @ ''IS1272'' @ [nl]"
  let ?text2 = "''The input organism was predicted as a MSSA isolate'' @ [nl] @
          ''The mecA/mecC gene was not detected'' @ [nl, nl] @
          ''No SCCmec element was detected'' @ [nl, nl] @
          ''Best homology match: SCCmec_type_II(2A)|var1 (75.5% coverage)'' @ [nl, nl] @
          ''Missing genes for this cassette:'' @ [nl] @
          ''ccrA2'' @ [nl] @ ''ccrB2'' @ [nl] @ ''mecA'' @ [nl] @ ''mecI'' @ [nl] @
          ''mecR1'' @ [nl]"
  have ac: "all_classes ev_extra = {''ccr class 2'', ''ccr class 6'', ''mec class A''}"
    by (simp add: all_classes_def ev_extra_def perform_ccr_gene_complex_typing_def
          perform_mec_gene_complex_typing_def)
  have ty: "sccmec_types ev_extra = [''SCCmec_type_II(2A)'']"
    by (simp add: sccmec_types_def ac perform_sccmec_typing_def)
  have a1: "all_classes ev_extra - dict_get SCCMEC_CLASSES ''SCCmec_type_II(2A)'' =
            {''ccr class 6''}"
    unfolding ac by (auto simp add: table_defs)
  have a2: "total_genes ev_extra - dict_get SCCMEC_DEFINITIONS ''SCCmec_type_II(2A)'' =
            {''ccrA5'', ''ccrB3'', ''IS1272''}"
    by (auto simp add: total_genes_def ev_extra_def table_defs)
  have m1: "mrsa_gene ev_extra = ''mecA''"
    by (simp add: ev_extra_def)
  have r1: "main_core gene_order sample_float ev_extra [] = Inr (?text1, html_text [])"
    by (simp add: main_core_def kmer_sorted_empty result_text_single [OF ty] m1
          subtype_lines_def perform_subtyping_def additional_sections_def a1 a2
          homology_line_def best_kmer_hit_def resistance_lines_def gene_order_def
          listed_order_def)
  have ty2: "sccmec_types initial_evidence = []"
    by (simp add: typing_defs initial_evidence_def)
  have ac2: "all_classes initial_evidence = {}"
    by (simp add: all_classes_def initial_evidence_def perform_ccr_gene_complex_typing_def
          perform_mec_gene_complex_typing_def)
  have s2: "kmer_sorted sample_float hits_IIvar = Inr hits_IIvar"
    by (simp add: ranking_defs hits_IIvar_def)
  have sp: "py_split CHR ''|'' ''SCCmec_type_II(2A)|var1'' ! 0 = ''SCCmec_type_II(2A)''"
    by simp
  have a3: "dict_get SCCMEC_DEFINITIONS ''SCCmec_type_II(2A)'' - total_genes initial_evidence =
            {''ccrA2'', ''ccrB2'', ''mecA'', ''mecR1'', ''mecI''}"
    by (auto simp add: total_genes_def initial_evidence_def table_defs)
  have m2: "mrsa_gene initial_evidence = []"
    by (simp add: initial_evidence_def)
  have r2: "main_core gene_order sample_float initial_evidence hits_IIvar =
              Inr (?text2, html_text hits_IIvar)"
    unfolding main_core_sorted [OF s2] result_text_none [OF ty2]
    by (simp add: hits_IIvar_def best_match_section_Cons sp a3 ac2 m2 sample_record_def
          resistance_lines_def gene_order_def listed_order_def del: py_split.simps)
  have o: "order_ok gene_order {''ccrA5'', ''ccrB3'', ''IS1272''}"
    by (auto simp add: order_ok_def gene_order_def listed_order_def)
  note single = difference_directions
    [OF kmer_sorted_empty r1, THEN conjunct1, THEN spec, THEN mp, OF ty]
  note none = difference_directions
    [OF s2 r2, THEN conjunct2, THEN conjunct1, THEN spec, THEN spec, THEN mp,
      of "(''SCCmec_type_II(2A)|var1'', sample_record ''8.5'' ''75.5'')" "[]"]
  note listing = difference_directions
    [OF s2 r2, THEN conjunct2, THEN conjunct2, THEN spec, THEN mp,
      of "{''ccrA5'', ''ccrB3'', ''IS1272''}"]
  have c1: "\<exists>subtype_text. ?text1 =
      resistance_lines ''mecA'' @ subtype_text @
      ''Prediction based on genes: '' @ ''SCCmec_type_II(2A)'' @ [nl] @ homology_line [] @
      [nl] @ ''Additional complexes found:'' @ [nl] @
      py_join [nl] (gene_order {''ccr class 6''}) @ [nl] @
      [nl] @ ''Additional genes found:'' @ [nl] @
      py_join [nl] (gene_order {''ccrA5'', ''ccrB3'', ''IS1272''}) @ [nl]"
    using single unfolding a1 a2 m1 by simp
  have c2: "?text2 =
     resistance_lines [] @ ''No SCCmec element was detected'' @ [nl] @
     [nl] @ ''Best homology match: '' @ ''SCCmec_type_II(2A)|var1'' @ '' ('' @ ''75.5'' @
       ''% coverage)'' @ [nl] @
     [nl] @ ''Missing genes for this cassette:'' @ [nl] @
     py_join [nl] (gene_order {''ccrA2'', ''ccrB2'', ''mecA'', ''mecR1'', ''mecI''}) @ [nl]"
    using none ty2 unfolding hits_IIvar_def
    by (simp add: sp a3 ac2 m2 sample_record_def del: py_split.simps)
  have c3: "py_split nl (py_join [nl] (gene_order {''ccrA5'', ''ccrB3'', ''IS1272''})) =
            gene_order {''ccrA5'', ''ccrB3'', ''IS1272''}"
    using listing o by simp
  show ?thesis
    by (intro conjI) (rule kmer_sorted_empty ty a1 a2 r1 c1 s2 ty2 sp a3 r2 c2 o c3)+
qed

subsection \<open>Tokens that set the resistance marker\<close>

lemma result_text_starts:
  assumes "result_text iter ev hits = Inr text"
  shows "\<exists>rest. text = resistance_lines (mrsa_gene ev) @ rest"
proof (cases "sccmec_types ev")
  case Nil
  from assms show ?thesis
    unfolding result_text_none [OF Nil] by auto
next
  case (Cons t ts)
  show ?thesis
  proof (cases ts)
    case Nil
    with Cons have "sccmec_types ev = [t]" by simp
    from result_text_single_Inr [OF this assms] show ?thesis
      by auto
  next
    case (Cons t' ts')
    with \<open>sccmec_types ev = t # ts\<close> assms show ?thesis
      by (auto simp add: result_text_def)
  qed
qed

lemma last_marker_append:
  assumes "marker_of_line line = Some m" and "\<forall>l \<in> set later. \<not> sets_marker l"
  shows "last_marker (earlier @ line # later) = m"
proof -
  from assms(2) have "filter sets_marker later = []"
    by (simp add: filter_empty_conv)
  with assms(1) show ?thesis
    by (simp add: last_marker_def sets_marker_def)
qed

text \<open>
  Claim C10. A processed line (one of at least four columns) whose gene token begins
  with \<^verbatim>\<open>mec-class\<close> sets the resistance marker to \<^verbatim>\<open>mecA\<close>, and one whose token begins
  with \<^verbatim>\<open>mecALGA251\<close> sets it to \<^verbatim>\<open>mecALGA251\<close> and not to \<^verbatim>\<open>mecA\<close>, although the
  token also begins with \<^verbatim>\<open>mecA\<close>. So when a \<^verbatim>\<open>mec-class\<close> line is followed by no line
  that sets the marker, every report written for the table begins with the two lines
  that declare an MRSA isolate with the mecA gene detected, whether or not a token
  \<^verbatim>\<open>mecA\<close> is in the table.
\<close>

theorem mec_class_sets_marker:
  "(\<not> length (parts_of line) < 4 \<and> startswith (gene_of line) ''mec-class'' \<longrightarrow>
      mrsa_gene (process_line ev line) = ''mecA'') \<and>
   (\<not> length (parts_of line) < 4 \<and> startswith (gene_of line) ''mecALGA251'' \<longrightarrow>
      startswith (gene_of line) ''mecA'' \<and>
      mrsa_gene (process_line ev line) = ''mecALGA251'') \<and>
   (\<not> length (parts_of line) < 4 \<and> startswith (gene_of line) ''mec-class'' \<and>
    (\<forall>l \<in> set later. \<not> sets_marker l) \<and>
    main_core iter pyfloat (parse_db_lines (earlier @ line # later)) kmer_results =
      Inr (text, html) \<longrightarrow>
      startswith text
        (''The input organism was predicted as a MRSA isolate'' @ [nl] @
         ''The mecA gene was detected'' @ [nl, nl]))"
proof (intro conjI impI)
  assume a: "\<not> length (parts_of line) < 4 \<and> startswith (gene_of line) ''mec-class''"
  then have "\<not> startswith (gene_of line) ''mecALGA251''"
    by (auto simp: startswith_iff)
  with a have "marker_of_line line = Some ''mecA''"
    by (simp add: marker_of_line_def)
  then show "mrsa_gene (process_line ev line) = ''mecA''"
    by (simp add: mrsa_process_line)
next
  assume a: "\<not> length (parts_of line) < 4 \<and> startswith (gene_of line) ''mecALGA251''"
  then show "startswith (gene_of line) ''mecA''"
    by (simp add: mecALGA251_is_mecA)
  from a have "marker_of_line line = Some ''mecALGA251''"
    by (simp add: marker_of_line_def)
  then show "mrsa_gene (process_line ev line) = ''mecALGA251''"
    by (simp add: mrsa_process_line)
next
  assume a: "\<not> length (parts_of line) < 4 \<and> startswith (gene_of line) ''mec-class'' \<and>
    (\<forall>l \<in> set later. \<not> sets_marker l) \<and>
    main_core iter pyfloat (parse_db_lines (earlier @ line # later)) kmer_results =
      Inr (text, html)"
  then have "\<not> startswith (gene_of line) ''mecALGA251''"
    by (auto simp: startswith_iff)
  with a have "marker_of_line line = Some ''mecA''"
    by (simp add: marker_of_line_def)
  with a have "last_marker (earlier @ line # later) = ''mecA''"
    by (simp add: last_marker_append)
  then have m: "mrsa_gene (parse_db_lines (earlier @ line # later)) = ''mecA''"
    by (simp only: mrsa_gene_parse)
  from a obtain hits where
    "result_text iter (parse_db_lines (earlier @ line # later)) hits = Inr text"
    by (auto simp: main_core_def split: sum.splits)
  from result_text_starts [OF this] obtain rest where
    "text = resistance_lines ''mecA'' @ rest"
    unfolding m by blast
  then show "startswith text
        (''The input organism was predicted as a MRSA isolate'' @ [nl] @
         ''The mecA gene was detected'' @ [nl, nl])"
    by (simp add: resistance_lines_def)
qed

theorem mec_class_sets_marker_witness:
  "parse_db_lines rows_mec_class =
     \<lparr>ccrAB_genes = {}, ccrC_genes = {''ccrC11''}, mec_genes = {''mec-class-C2''},
      subtyping_genes = {}, mrsa_gene = ''mecA''\<rparr> \<and>
   ''mecA'' \<notin> total_genes (parse_db_lines rows_mec_class) \<and>
   gene_of (sample_row ''mec-class-C2:3:CD'') = ''mec-class-C2'' \<and>
   main_core label_order sample_float (parse_db_lines rows_mec_class) [] =
     Inr (''The input organism was predicted as a MRSA isolate'' @ [nl] @
          ''The mecA gene was detected'' @ [nl, nl] @
          ''No SCCmec element was detected'' @ [nl, nl] @
          ''Detected gene complexes:'' @ [nl] @ ''ccr class 5'' @ [nl],
          html_text []) \<and>
   startswith
     (''The input organism was predicted as a MRSA isolate'' @ [nl] @
      ''The mecA gene was detected'' @ [nl, nl] @
      ''No SCCmec element was detected'' @ [nl, nl] @
      ''Detected gene complexes:'' @ [nl] @ ''ccr class 5'' @ [nl])
     (''The input organism was predicted as a MRSA isolate'' @ [nl] @
      ''The mecA gene was detected'' @ [nl, nl]) \<and>
   gene_of (sample_row ''mecALGA251:1:XY'') = ''mecALGA251'' \<and>
   mrsa_gene (process_line initial_evidence (sample_row ''mecALGA251:1:XY'')) = ''mecALGA251''"
proof -
  have p: "parse_db_lines rows_mec_class =
     \<lparr>ccrAB_genes = {}, ccrC_genes = {''ccrC11''}, mec_genes = {''mec-class-C2''},
      subtyping_genes = {}, mrsa_gene = ''mecA''\<rparr>"
    by (simp add: parse_db_lines_def rows_mec_class_def initial_evidence_def line_defs)
  have n: "''mecA'' \<notin> total_genes (parse_db_lines rows_mec_class)"
    by (simp add: p total_genes_def)
  have g: "gene_of (sample_row ''mec-class-C2:3:CD'') = ''mec-class-C2''"
    by (simp add: line_defs)
  have l: "\<not> length (parts_of (sample_row ''mec-class-C2:3:CD'')) < 4"
    by (simp add: line_defs)
  have g2: "gene_of (sample_row ''mecALGA251:1:XY'') = ''mecALGA251''"
    by (simp add: line_defs)
  have l2: "\<not> length (parts_of (sample_row ''mecALGA251:1:XY'')) < 4"
    by (simp add: line_defs)
  have ac: "all_classes (parse_db_lines rows_mec_class) = {''ccr class 5''}"
    by (simp add: p all_classes_def perform_ccr_gene_complex_typing_def
          perform_mec_gene_complex_typing_def)
  have ty: "sccmec_types (parse_db_lines rows_mec_class) = []"
    by (simp add: sccmec_types_def ac perform_sccmec_typing_def)
  have m: "mrsa_gene (parse_db_lines rows_mec_class) = ''mecA''"
    by (simp add: p)
  have r: "main_core label_order sample_float (parse_db_lines rows_mec_class) [] =
     Inr (''The input organism was predicted as a MRSA isolate'' @ [nl] @
          ''The mecA gene was detected'' @ [nl, nl] @
          ''No SCCmec element was detected'' @ [nl, nl] @
          ''Detected gene complexes:'' @ [nl] @ ''ccr class 5'' @ [nl],
          html_text [])"
    unfolding main_core_sorted [OF kmer_sorted_empty] result_text_none [OF ty]
    by (simp add: m ac resistance_lines_def best_match_section_def label_order_def
          listed_order_def)
  have h: "\<not> length (parts_of (sample_row ''mec-class-C2:3:CD'')) < 4 \<and>
           startswith (gene_of (sample_row ''mec-class-C2:3:CD'')) ''mec-class'' \<and>
           (\<forall>l \<in> set []. \<not> sets_marker l) \<and>
           main_core label_order sample_float
             (parse_db_lines ([sample_row ''ccrC11:1:AB''] @
                sample_row ''mec-class-C2:3:CD'' # [])) [] =
             Inr (''The input organism was predicted as a MRSA isolate'' @ [nl] @
                  ''The mecA gene was detected'' @ [nl, nl] @
                  ''No SCCmec element was detected'' @ [nl, nl] @
                  ''Detected gene complexes:'' @ [nl] @ ''ccr class 5'' @ [nl],
                  html_text [])"
    using l r by (simp add: g rows_mec_class_def)
  note s = mec_class_sets_marker [THEN conjunct2, THEN conjunct2, THEN mp, OF h]
  have h2: "\<not> length (parts_of (sample_row ''mecALGA251:1:XY'')) < 4 \<and>
            startswith (gene_of (sample_row ''mecALGA251:1:XY'')) ''mecALGA251''"
    using l2 by (simp add: g2)
  note a = mec_class_sets_marker
    [where ev = initial_evidence, THEN conjunct2, THEN conjunct1, THEN mp, OF h2,
      THEN conjunct2]
  show ?thesis
    by (intro conjI) (rule p n g r s g2 a)+
qed

subsection \<open>Exceptions of the engine\<close>

text \<open>
  The two indexings of a split that the model leaves unchecked are in range: segment 0
  always exists, and segment 1 exists when the separator occurs. The engine returns its two
  texts whenever \<^verbatim>\<open>float\<close> reads every score and every subtyping gene holds a hyphen.
\<close>

lemma py_split_length: "length (py_split c s) = Suc (count_list s c)"
  by (induction s) (auto split: list.splits simp: py_split_not_Nil)

lemma py_split_second: "c \<in> set s \<Longrightarrow> 1 < length (py_split c s)"
  using count_list_0_iff [of s c] by (simp add: py_split_length)

lemma subtype_lines_completes:
  assumes "order_ok iter sub_genes" and "\<forall>g \<in> sub_genes. CHR ''-'' \<in> set g"
  shows "\<exists>text. subtype_lines iter subtyping ksubtype sub_genes db_hit = Inr text"
proof (cases "subtyping \<and> ksubtype \<noteq> [] \<and> card sub_genes = 1")
  case True
  with assms(1) have "length (iter sub_genes) = 1"
    by (auto simp: order_ok_def dest: distinct_card)
  then obtain g where g: "iter sub_genes = [g]"
    by (cases "iter sub_genes") auto
  with assms(1) have "g \<in> sub_genes"
    by (auto simp: order_ok_def)
  with assms(2) have "CHR ''-'' \<in> set g"
    by blast
  then have "1 < length (py_split CHR ''-'' g)"
    by (rule py_split_second)
  with True g show ?thesis
    by (simp add: subtype_lines_def py_index_def Let_def)
next
  case False
  then show ?thesis
    by (auto simp: subtype_lines_def)
qed

lemma engine_completes:
  assumes "\<forall>x \<in> set kmer_results. pyfloat (Score (snd x)) \<noteq> None"
    and "order_ok iter (subtyping_genes ev)"
    and "\<forall>g \<in> subtyping_genes ev. CHR ''-'' \<in> set g"
  shows "\<exists>text html. main_core iter pyfloat ev kmer_results = Inr (text, html)"
proof -
  from kmer_sorted_Inr [OF assms(1)]
  obtain hits where s: "kmer_sorted pyfloat kmer_results = Inr hits"
    by blast
  from subtype_lines_completes [OF assms(2,3)]
  obtain sub where
    "subtype_lines iter (perform_subtyping (sccmec_types ev)) (kmer_subtype hits)
       (subtyping_genes ev) (sccmec_types ev ! 0) = Inr sub"
    by blast
  then have "\<exists>text. result_text iter ev hits = Inr text"
    by (simp add: result_text_def Let_def)
  then show ?thesis
    by (auto simp: main_core_sorted [OF s])
qed

text \<open>
  Claim C1 says that the engine never raises, also when the single subtyping gene
  holds no hyphen. The code does raise there: for the table \<open>rows_no_hyphen\<close>, whose
  one subtyping token is \<^verbatim>\<open>subtypeIVa\<close>, and a best homology hit with a subtype, the
  list \<^verbatim>\<open>subtype_gene.split('-')\<close> has one element and its index 1 at line 325 is
  out of range.
\<close>

theorem subtype_gene_without_hyphen_raises:
  "subtyping_genes (parse_db_lines rows_no_hyphen) = {''subtypeIVa''} \<and>
   sccmec_types (parse_db_lines rows_no_hyphen) = [''SCCmec_type_IV(2B)''] \<and>
   kmer_sorted sample_float hits_IVa = Inr hits_IVa \<and>
   order_ok label_order {''subtypeIVa''} \<and>
   py_split CHR ''-'' ''subtypeIVa'' = [''subtypeIVa''] \<and>
   main_core label_order sample_float (parse_db_lines rows_no_hyphen) hits_IVa =
     Inl IndexError"
proof -
  have p: "parse_db_lines rows_no_hyphen =
     \<lparr>ccrAB_genes = {''ccrB2'', ''ccrA2''}, ccrC_genes = {},
      mec_genes = {''IS1272'', ''dmecR1'', ''mecA''},
      subtyping_genes = {''subtypeIVa''}, mrsa_gene = ''mecA''\<rparr>"
    by (simp add: parse_db_lines_def rows_no_hyphen_def initial_evidence_def line_defs Let_def)
  have sg: "subtyping_genes (parse_db_lines rows_no_hyphen) = {''subtypeIVa''}"
    by (simp add: p)
  have ty: "sccmec_types (parse_db_lines rows_no_hyphen) = [''SCCmec_type_IV(2B)'']"
    by (simp add: p typing_defs)
  have o: "order_ok label_order {''subtypeIVa''}"
    by (simp add: order_ok_def label_order_def listed_order_def)
  have sp: "py_split CHR ''-'' ''subtypeIVa'' = [''subtypeIVa'']"
    by simp
  have k: "kmer_subtype hits_IVa = ''SCCmec_type_IVa''"
    by (simp add: kmer_subtype_def hits_IVa_def)
  have s: "subtype_lines label_order (perform_subtyping [''SCCmec_type_IV(2B)''])
             (kmer_subtype hits_IVa) {''subtypeIVa''} ''SCCmec_type_IV(2B)'' = Inl IndexError"
    by (simp add: subtype_lines_def perform_subtyping_def k py_index_def label_order_def
          listed_order_def)
  have r: "main_core label_order sample_float (parse_db_lines rows_no_hyphen) hits_IVa =
             Inl IndexError"
    unfolding main_core_sorted [OF kmer_sorted_hits_IVa] result_text_single [OF ty] sg s
    by simp
  show ?thesis
    by (intro conjI) (rule sg ty kmer_sorted_hits_IVa o sp r)+
qed

end
